theory Spec2Isabelle
  imports Complex_Main "HOL-Library.Multiset"
begin

section \<open>JavaScript values\<close>

text \<open>
  The value \<open>JSON.parse\<close> returns, and the value of \<open>req.body\<close> after \<open>express.json()\<close>.
  An object is the list of its key/value pairs, read with \<open>map_of\<close>. A number is the
  value of the (finite) double.
\<close>

datatype json =
    JNull
  | JBool bool
  | JNum real
  | JStr string
  | JArr "json list"
  | JObj "(string \<times> json) list"

text \<open>
  What a \<open>throw\<close> carries: an \<open>Error\<close> object with its message, or any other value.
  The handlers of this repository only ask \<open>error instanceof Error\<close> and read
  \<open>error.message\<close>.
\<close>

datatype thrown = Error string | NonError

text \<open>\<open>error instanceof Error ? error.message : dflt\<close>\<close>

fun message_or :: "thrown \<Rightarrow> string \<Rightarrow> string" where
  "message_or (Error m) dflt = m"
| "message_or NonError dflt = dflt"

text \<open>
  Property read \<open>v.key\<close> on a parsed JSON value: \<open>None\<close> is \<open>undefined\<close>. Reading a
  property of \<open>null\<close> throws a TypeError; strings, numbers, booleans and arrays have no
  own property of the names read here, so the read gives \<open>undefined\<close>.
\<close>

fun get_prop :: "json \<Rightarrow> string \<Rightarrow> thrown + json option" where
  "get_prop JNull key = Inl (Error (''Cannot read properties of null (reading '' @ key @ '')''))"
| "get_prop (JObj kvs) key = Inr (map_of kvs key)"
| "get_prop v key = Inr None"

text \<open>JavaScript truthiness (\<open>None\<close> is \<open>undefined\<close>) and the operator \<open>a || b\<close>.\<close>

fun js_truthy :: "json option \<Rightarrow> bool" where
  "js_truthy None = False"
| "js_truthy (Some JNull) = False"
| "js_truthy (Some (JBool b)) = b"
| "js_truthy (Some (JNum n)) = (n \<noteq> 0)"
| "js_truthy (Some (JStr s)) = (s \<noteq> [])"
| "js_truthy (Some (JArr xs)) = True"
| "js_truthy (Some (JObj kvs)) = True"

definition js_or :: "json option \<Rightarrow> json \<Rightarrow> json" where
  "js_or a b = (if js_truthy a then the a else b)"

text \<open>\<open>Array.prototype.join\<close> on strings.\<close>

fun join :: "string list \<Rightarrow> string \<Rightarrow> string" where
  "join [] sep = []"
| "join [x] sep = x"
| "join (x # y # ys) sep = x @ sep @ join (y # ys) sep"

text \<open>\<open>xs.slice(i, j)\<close> for indices \<open>0 \<le> i \<le> j\<close>: it stops at the end of the array.\<close>

definition slice :: "'a list \<Rightarrow> nat \<Rightarrow> nat \<Rightarrow> 'a list" where
  "slice xs i j = take (j - i) (drop i xs)"

text \<open>\<open>s.includes(sub)\<close>\<close>

fun str_includes :: "string \<Rightarrow> string \<Rightarrow> bool" where
  "str_includes [] sub = (sub = [])"
| "str_includes (c # cs) sub = (take (length sub) (c # cs) = sub \<or> str_includes cs sub)"

section \<open>The extraction service (src/services/dataExtraction.ts, lines 1--257)\<close>

record CustomSchema =
  schema_fields :: "string list"
  schema_description :: string

text \<open>
  The file holds the service twice; the first text (lines 1--257) is the one embedded
  here. The second (lines 257--535) has the same \<open>extractData\<close> and
  \<open>extractDataBatch\<close> and the same branch for \<open>custom\<close> in
  \<open>buildExtractionPrompt\<close>, and one prompt for all other extraction types.

  \<open>ExtractionType\<close> is a union of string literals; at run time it is a string, and
  \<open>buildExtractionPrompt\<close> has a \<open>default\<close> branch for every other string.
\<close>

record ExtractionRequest =
  transcription :: string
  extractionType :: string
  customSchema :: "CustomSchema option"
  userId :: string

record TranscriptionItem =
  item_id :: string
  item_text :: string

record BatchExtractionRequest =
  transcriptions :: "TranscriptionItem list"
  batch_extractionType :: string
  batch_customSchema :: "CustomSchema option"
  batch_userId :: string

record TokenUsage =
  prompt_tokens :: nat
  completion_tokens :: nat
  total_tokens :: nat

text \<open>
  \<open>confidence\<close> is declared a number, but the success branch stores whatever JSON value
  \<open>extractedData.confidence || 0.8\<close> evaluates to, so the field holds a JSON value.
\<close>

record ExtractionResult =
  success :: bool
  extractedData :: json
  confidence :: json
  result_extractionType :: string
  processingTime :: nat
  tokens :: "TokenUsage option"

record BatchExtractionResult =
  entry_id :: string
  entry_result :: ExtractionResult
  entry_error :: "string option"

text \<open>
  The answer of \<open>openai.chat.completions.create\<close>: \<open>content\<close> is
  \<open>completion.choices[0]?.message?.content\<close> (\<open>None\<close> when it is \<open>undefined\<close> or
  \<open>null\<close>), the three counters are \<open>completion.usage?.prompt_tokens\<close> and its siblings.
\<close>

record ChatCompletion =
  content :: "string option"
  usage_prompt_tokens :: "nat option"
  usage_completion_tokens :: "nat option"
  usage_total_tokens :: "nat option"

text \<open>
  Everything outside the program that one call of \<open>extractData\<close> meets: the remote
  provider (its answer to the prompt, or what it throws), \<open>JSON.parse\<close> (the parsed
  value, or the SyntaxError it throws) and the clock (\<open>Date.now() - startTime\<close> when the
  result is built). The remote call is assumed to settle.
\<close>

record call_env =
  create :: "string \<Rightarrow> thrown + ChatCompletion"
  JSON_parse :: "string \<Rightarrow> thrown + json"
  elapsed :: nat

definition basePrompt :: "string \<Rightarrow> string" where
  \<open>basePrompt tr =
     ''Extract structured data from the following automotive repair transcription. Return your response as a valid JSON object.\<newline>\<newline>Transcription:\<newline>"''
     @ tr @ ''"\<newline>\<newline>''\<close>

text \<open>
  \<open>buildExtractionPrompt(transcription, extractionType, customSchema)\<close>, lines 165--233,
  with the parameters abbreviated \<open>tr\<close>, \<open>ty\<close>, \<open>cs\<close>: \<open>Inl\<close> is a thrown error.
\<close>

definition buildExtractionPrompt :: "string \<Rightarrow> string \<Rightarrow> CustomSchema option \<Rightarrow> thrown + string" where
  \<open>buildExtractionPrompt tr ty cs =
    (if ty = ''repair_details'' then
       Inr (basePrompt tr @
         ''Extract the following repair details:\<newline>- vehicle_info: Year, make, model, VIN if mentioned\<newline>- problem_description: What the customer reported as the issue\<newline>- diagnosis: What the technician found during inspection\<newline>- repairs_performed: Specific repair work done\<newline>- parts_used: Parts replaced or installed\<newline>- labor_time: Time spent on different tasks\<newline>- recommendations: Future maintenance suggestions\<newline>\<newline>Format your response as JSON with these exact field names. Include a "confidence" field (0.0-1.0) indicating your confidence in the extraction.'')
     else if ty = ''parts_inventory'' then
       Inr (basePrompt tr @
         ''Extract parts and inventory information:\<newline>- part_numbers: Specific part numbers mentioned\<newline>- part_descriptions: Description of parts used\<newline>- quantities: How many of each part\<newline>- suppliers: Where parts were sourced from\<newline>- costs: Part costs if mentioned\<newline>- installation_notes: Any special installation requirements\<newline>\<newline>Format your response as JSON with these exact field names. Include a "confidence" field (0.0-1.0).'')
     else if ty = ''labor_hours'' then
       Inr (basePrompt tr @
         ''Extract labor and time information:\<newline>- tasks_performed: List of specific tasks done\<newline>- time_per_task: Time spent on each task\<newline>- total_hours: Total labor time\<newline>- technician_notes: Any notes about the work performed\<newline>- difficulty_level: How complex the work was (easy/medium/hard)\<newline>\<newline>Format your response as JSON with these exact field names. Include a "confidence" field (0.0-1.0).'')
     else if ty = ''customer_info'' then
       Inr (basePrompt tr @
         ''Extract customer and vehicle information:\<newline>- customer_name: Customer's name if mentioned\<newline>- contact_info: Phone, email, or address if mentioned\<newline>- vehicle_year: Year of the vehicle\<newline>- vehicle_make: Make/brand of the vehicle\<newline>- vehicle_model: Model of the vehicle\<newline>- vin: VIN number if mentioned\<newline>- mileage: Current mileage if mentioned\<newline>- service_requests: What services were requested\<newline>\<newline>Format your response as JSON with these exact field names. Include a "confidence" field (0.0-1.0).'')
     else if ty = ''custom'' then
       (case cs of
          None \<Rightarrow> Inl (Error ''Custom schema is required for custom extraction type'')
        | Some schema \<Rightarrow>
            Inr (basePrompt tr @
              ''Extract the following custom fields based on this schema:\<newline>Description: ''
              @ schema_description schema @ ''\<newline>Fields to extract: '' @ join (schema_fields schema) '', ''
              @ ''\<newline>\<newline>Format your response as JSON using the field names provided. Include a "confidence" field (0.0-1.0).''))
     else Inl (Error (''Unsupported extraction type: '' @ ty)))\<close>

text \<open>
  The \<open>try\<close> block of \<open>extractData\<close>, lines 59--99. The first component is how the
  block ends (\<open>Inl\<close>: it threw); the second lists the prompts sent to the remote
  provider, in order.
\<close>

definition extractData_try :: "call_env \<Rightarrow> ExtractionRequest \<Rightarrow> (thrown + ExtractionResult) \<times> string list" where
  "extractData_try env request =
    (case buildExtractionPrompt (transcription request) (extractionType request) (customSchema request) of
       Inl e \<Rightarrow> (Inl e, [])
     | Inr prompt \<Rightarrow>
        (case create env prompt of
           Inl e \<Rightarrow> (Inl e, [prompt])
         | Inr completion \<Rightarrow>
            (case content completion of
               None \<Rightarrow> (Inl (Error ''No response from extraction model''), [prompt])
             | Some responseText \<Rightarrow>
                if responseText = [] then (Inl (Error ''No response from extraction model''), [prompt])
                else
                  (case JSON_parse env responseText of
                     Inl e \<Rightarrow> (Inl e, [prompt])
                   | Inr parsed \<Rightarrow>
                      (case get_prop parsed ''confidence'' of
                         Inl e \<Rightarrow> (Inl e, [prompt])
                       | Inr c \<Rightarrow>
                          (Inr \<lparr> success = True,
                                 extractedData = parsed,
                                 confidence = js_or c (JNum 0.8),
                                 result_extractionType = extractionType request,
                                 processingTime = elapsed env,
                                 tokens = Some \<lparr> prompt_tokens = (case usage_prompt_tokens completion of None \<Rightarrow> 0 | Some n \<Rightarrow> n),
                                                  completion_tokens = (case usage_completion_tokens completion of None \<Rightarrow> 0 | Some n \<Rightarrow> n),
                                                  total_tokens = (case usage_total_tokens completion of None \<Rightarrow> 0 | Some n \<Rightarrow> n) \<rparr> \<rparr>,
                           [prompt]))))))"

text \<open>The value the \<open>catch\<close> block of \<open>extractData\<close> returns, lines 101--112.\<close>

definition catch_result :: "call_env \<Rightarrow> ExtractionRequest \<Rightarrow> thrown \<Rightarrow> ExtractionResult" where
  "catch_result env request err =
     \<lparr> success = False,
       extractedData = JObj [(''error'', JStr (message_or err ''Unknown extraction error''))],
       confidence = JNum 0,
       result_extractionType = extractionType request,
       processingTime = elapsed env,
       tokens = None \<rparr>"

text \<open>
  \<open>extractData\<close>, lines 56--113: the \<open>try\<close> block and its \<open>catch\<close>. \<open>Inl\<close> would be a
  rejected promise.
\<close>

definition extractData :: "call_env \<Rightarrow> ExtractionRequest \<Rightarrow> (thrown + ExtractionResult) \<times> string list" where
  "extractData env request =
    (case extractData_try env request of
       (Inr r, calls) \<Rightarrow> (Inr r, calls)
     | (Inl err, calls) \<Rightarrow> (Inr (catch_result env request err), calls))"

section \<open>Promises and the batch loop\<close>

text \<open>
  \<open>Promise.all(ps)\<close>. The promises settle in some order, given as the list of their
  indices in the order of settling. A fulfilled promise stores its value in the slot of
  its own index; the first rejection rejects the whole. When the order is over and a slot
  is still empty, some promise never settled and \<open>Promise.all\<close> stays pending: \<open>None\<close>.
\<close>

fun settle_all :: "nat list \<Rightarrow> ('e + 'a) list \<Rightarrow> 'a option list \<Rightarrow> 'e + 'a option list" where
  "settle_all [] ps slots = Inr slots"
| "settle_all (k # ks) ps slots =
     (if k < length ps then
        (case ps ! k of
           Inl e \<Rightarrow> Inl e
         | Inr v \<Rightarrow> settle_all ks ps (slots[k := Some v]))
      else settle_all ks ps slots)"

definition Promise_all :: "nat list \<Rightarrow> ('e + 'a) list \<Rightarrow> ('e + 'a list) option" where
  "Promise_all settle_order ps =
     (case settle_all settle_order ps (replicate (length ps) None) of
        Inl e \<Rightarrow> Some (Inl e)
      | Inr slots \<Rightarrow> if list_all (\<lambda>s. s \<noteq> None) slots then Some (Inr (map the slots)) else None)"

text \<open>
  What an observer of \<open>extractDataBatch\<close> sees: the item at a position of the input is
  handed to the per-item function, a prompt is sent to the remote provider for it, its
  promise settles, the loop sleeps for a number of milliseconds.
\<close>

datatype event = Dispatch nat | RemoteCall nat string | Settled nat | Delay nat

definition maxConcurrent :: nat where
  "maxConcurrent = 3"

text \<open>The request the per-item function passes to \<open>extractData\<close>, lines 127--132.\<close>

definition item_request :: "BatchExtractionRequest \<Rightarrow> TranscriptionItem \<Rightarrow> ExtractionRequest" where
  "item_request request item =
     \<lparr> transcription = item_text item,
       extractionType = batch_extractionType request,
       customSchema = batch_customSchema request,
       userId = batch_userId request \<rparr>"

text \<open>The function mapped over a chunk, lines 125--151: its \<open>try\<close> and its \<open>catch\<close>.\<close>

definition process_item :: "call_env \<Rightarrow> BatchExtractionRequest \<Rightarrow> TranscriptionItem \<Rightarrow> (thrown + BatchExtractionResult) \<times> string list" where
  "process_item env request item =
    (case extractData env (item_request request item) of
       (Inr r, calls) \<Rightarrow>
         (Inr \<lparr> entry_id = item_id item, entry_result = r, entry_error = None \<rparr>, calls)
     | (Inl err, calls) \<Rightarrow>
         (Inr \<lparr> entry_id = item_id item,
                entry_result = \<lparr> success = False,
                                 extractedData = JObj [],
                                 confidence = JNum 0,
                                 result_extractionType = batch_extractionType request,
                                 processingTime = 0,
                                 tokens = None \<rparr>,
                entry_error = Some (message_or err ''Unknown error'') \<rparr>,
          calls))"

text \<open>
  The \<open>for\<close> loop of \<open>extractDataBatch\<close>, lines 122--160, from index \<open>i\<close> with the
  results and the trace so far. \<open>envs k\<close> is the outside world of the item at position
  \<open>k\<close>; \<open>sched i\<close> permutes the indices of the chunk that starts at \<open>i\<close> into the order
  in which its promises settle. All functions mapped over the chunk run up to their remote
  call before any promise settles. The first component of the result is how the call
  ends: \<open>None\<close> when it never returns, \<open>Some (Inl e)\<close> when it throws.
\<close>

function extractDataBatch_loop ::
  "(nat \<Rightarrow> call_env) \<Rightarrow> (nat \<Rightarrow> nat list \<Rightarrow> nat list) \<Rightarrow> BatchExtractionRequest \<Rightarrow> nat
     \<Rightarrow> BatchExtractionResult list \<Rightarrow> event list
     \<Rightarrow> (thrown + BatchExtractionResult list) option \<times> event list" where
  "extractDataBatch_loop envs sched request i results tr =
    (if i < length (transcriptions request) then
       (let batch = slice (transcriptions request) i (i + maxConcurrent);
            positions = [i..<i + length batch];
            outcomes = map (\<lambda>(k, item). process_item (envs k) request item) (zip positions batch);
            started = concat (map (\<lambda>(k, out). Dispatch k # map (RemoteCall k) (snd out)) (zip positions outcomes));
            settle_order = sched i [0..<length batch];
            settled = map (\<lambda>j. Settled (i + j)) settle_order
        in case Promise_all settle_order (map fst outcomes) of
             None \<Rightarrow> (None, tr @ started @ settled)
           | Some (Inl e) \<Rightarrow> (Some (Inl e), tr @ started @ settled)
           | Some (Inr batchResults) \<Rightarrow>
               extractDataBatch_loop envs sched request (i + maxConcurrent) (results @ batchResults)
                 (tr @ started @ settled @
                    (if i + maxConcurrent < length (transcriptions request) then [Delay 1000] else [])))
     else (Some (Inr results), tr))"
  by pat_completeness auto
termination
  by (relation "measure (\<lambda>(envs, sched, request, i, results, tr). length (transcriptions request) - i)")
     (auto simp: maxConcurrent_def)

definition extractDataBatch ::
  "(nat \<Rightarrow> call_env) \<Rightarrow> (nat \<Rightarrow> nat list \<Rightarrow> nat list) \<Rightarrow> BatchExtractionRequest
     \<Rightarrow> (thrown + BatchExtractionResult list) option \<times> event list" where
  "extractDataBatch envs sched request = extractDataBatch_loop envs sched request 0 [] []"

subsection \<open>The schedule the specification describes\<close>

text \<open>Consecutive chunks of size \<open>n\<close>; the last one holds what is left.\<close>

function chunks_of :: "nat \<Rightarrow> 'a list \<Rightarrow> 'a list list" where
  "chunks_of n xs = (if n = 0 \<or> xs = [] then [] else take n xs # chunks_of n (drop n xs))"
  by pat_completeness auto
termination
  by (relation "measure (\<lambda>(n, xs). length xs)") auto

text \<open>A pacing delay of \<open>d\<close> milliseconds between chunks, none after the last.\<close>

fun paced :: "nat \<Rightarrow> event list list \<Rightarrow> event list" where
  "paced d [] = []"
| "paced d [c] = c"
| "paced d (c # c' # cs) = c @ [Delay d] @ paced d (c' # cs)"

text \<open>
  One chunk, given as its items with their positions in the input: every item is
  dispatched, in input order, and then all promises of the chunk settle, in the order
  the scheduler chooses.
\<close>

definition chunk_events ::
  "(nat \<Rightarrow> call_env) \<Rightarrow> (nat \<Rightarrow> nat list \<Rightarrow> nat list) \<Rightarrow> BatchExtractionRequest
     \<Rightarrow> (nat \<times> TranscriptionItem) list \<Rightarrow> event list" where
  "chunk_events envs sched request c =
     concat (map (\<lambda>(k, item). Dispatch k # map (RemoteCall k) (snd (process_item (envs k) request item))) c)
     @ map (\<lambda>j. Settled (fst (hd c) + j)) (sched (fst (hd c)) [0..<length c])"

section \<open>HTTP responses, the environment, \<open>parseInt\<close>\<close>

text \<open>
  Of a response, the status code and either the payload of a success or the \<open>error\<close>
  text of a failure are kept; the \<open>metadata\<close>, \<open>message\<close> and \<open>details\<close> members are
  left out.
\<close>

datatype 'a response = Success nat 'a | Failure nat string

fun status :: "'a response \<Rightarrow> nat" where
  "status (Success code payload) = code"
| "status (Failure code msg) = code"

text \<open>\<open>process.env\<close>, and \<open>process.env.NAME || dflt\<close>: an unset or empty variable gives \<open>dflt\<close>.\<close>

type_synonym process_env = "string \<Rightarrow> string option"

definition env_or :: "string option \<Rightarrow> string \<Rightarrow> string" where
  "env_or v dflt = (case v of None \<Rightarrow> dflt | Some s \<Rightarrow> if s = [] then dflt else s)"

text \<open>
  \<open>parseInt(s)\<close> without a radix: leading (ASCII) white space, a sign, a \<open>0x\<close>
  prefix for base 16, then the longest prefix of digits; \<open>None\<close> is \<open>NaN\<close>. The result
  is exact here, where JavaScript rounds beyond \<open>2^53\<close>.
\<close>

definition is_space :: "char \<Rightarrow> bool" where
  "is_space c = (of_char c \<in> {9, 10, 11, 12, 13, 32 :: nat})"

definition digit_of :: "nat \<Rightarrow> char \<Rightarrow> nat option" where
  "digit_of radix c =
     (let n = (of_char c :: nat);
          d = (if 48 \<le> n \<and> n \<le> 57 then Some (n - 48)
               else if 97 \<le> n \<and> n \<le> 102 then Some (n - 87)
               else if 65 \<le> n \<and> n \<le> 70 then Some (n - 55)
               else None)
      in case d of None \<Rightarrow> None | Some v \<Rightarrow> if v < radix then Some v else None)"

fun digits :: "nat \<Rightarrow> string \<Rightarrow> nat list" where
  "digits radix [] = []"
| "digits radix (c # cs) = (case digit_of radix c of None \<Rightarrow> [] | Some d \<Rightarrow> d # digits radix cs)"

definition parseInt :: "string \<Rightarrow> int option" where
  "parseInt s =
     (let s1 = dropWhile is_space s;
          neg = (take 1 s1 = ''-'');
          s2 = (if take 1 s1 = ''-'' \<or> take 1 s1 = ''+'' then drop 1 s1 else s1);
          hex = (take 2 s2 = ''0x'' \<or> take 2 s2 = ''0X'');
          radix = (if hex then 16 else 10);
          ds = digits radix (if hex then drop 2 s2 else s2)
      in if ds = [] then None
         else Some ((if neg then - 1 else 1) * int (foldl (\<lambda>a d. a * radix + d) 0 ds)))"

text \<open>\<open>parseInt(...) || dflt\<close>: \<open>NaN\<close> and \<open>0\<close> are falsy.\<close>

definition int_or :: "int option \<Rightarrow> int \<Rightarrow> int" where
  "int_or v dflt = (case v of None \<Rightarrow> dflt | Some n \<Rightarrow> if n = 0 then dflt else n)"

section \<open>The extraction routes (src/unnamed/part_001)\<close>

subsection \<open>\<open>batchExtractionSchema\<close>, lines 18--28\<close>

definition extractionTypes :: "string list" where
  "extractionTypes = [''repair_details'', ''parts_inventory'', ''labor_hours'', ''customer_info'',
                      ''damage_assessment'', ''custom'']"

text \<open>
  The validators return \<open>None\<close> where \<open>parse\<close> throws a \<open>ZodError\<close>. Their argument is
  the member of the body, \<open>None\<close> when the key is missing.
\<close>

text \<open>\<open>z.string().min(n)\<close>; \<open>z.string()\<close> is \<open>z_string 0\<close>.\<close>

fun z_string :: "nat \<Rightarrow> json option \<Rightarrow> string option" where
  "z_string n (Some (JStr s)) = (if n \<le> length s then Some s else None)"
| "z_string n v = None"

text \<open>\<open>z.array(z.string())\<close>\<close>

fun z_string_array :: "json option \<Rightarrow> string list option" where
  "z_string_array (Some (JArr xs)) =
     (if list_all (\<lambda>x. z_string 0 (Some x) \<noteq> None) xs
      then Some (map (\<lambda>x. the (z_string 0 (Some x))) xs) else None)"
| "z_string_array v = None"

text \<open>\<open>z.enum([...]).default('repair_details')\<close>\<close>

fun z_extractionType :: "json option \<Rightarrow> string option" where
  "z_extractionType None = Some ''repair_details''"
| "z_extractionType (Some (JStr s)) = (if s \<in> set extractionTypes then Some s else None)"
| "z_extractionType (Some v) = None"

text \<open>
  \<open>z.object({fields: z.array(z.string()), description: z.string()}).optional()\<close>: the
  outer \<open>None\<close> is the \<open>ZodError\<close>, \<open>Some None\<close> a missing \<open>customSchema\<close>.
\<close>

fun z_customSchema :: "json option \<Rightarrow> CustomSchema option option" where
  "z_customSchema None = Some None"
| "z_customSchema (Some (JObj kvs)) =
     (case (z_string_array (map_of kvs ''fields''), z_string 0 (map_of kvs ''description'')) of
        (Some fs, Some d) \<Rightarrow> Some (Some \<lparr> schema_fields = fs, schema_description = d \<rparr>)
      | _ \<Rightarrow> None)"
| "z_customSchema (Some v) = None"

text \<open>\<open>z.object({id: z.string(), text: z.string().min(10)})\<close>\<close>

fun z_item :: "json \<Rightarrow> TranscriptionItem option" where
  "z_item (JObj kvs) =
     (case (z_string 0 (map_of kvs ''id''), z_string 10 (map_of kvs ''text'')) of
        (Some i, Some t) \<Rightarrow> Some \<lparr> item_id = i, item_text = t \<rparr>
      | _ \<Rightarrow> None)"
| "z_item v = None"

text \<open>\<open>z.array(...).min(1).max(10)\<close>\<close>

fun z_transcriptions :: "json option \<Rightarrow> TranscriptionItem list option" where
  "z_transcriptions (Some (JArr xs)) =
     (if list_all (\<lambda>x. z_item x \<noteq> None) xs \<and> 1 \<le> length xs \<and> length xs \<le> 10
      then Some (map (\<lambda>x. the (z_item x)) xs) else None)"
| "z_transcriptions v = None"

record validated_batch =
  v_transcriptions :: "TranscriptionItem list"
  v_extractionType :: string
  v_customSchema :: "CustomSchema option"

fun batchExtractionSchema_parse :: "json \<Rightarrow> validated_batch option" where
  "batchExtractionSchema_parse (JObj kvs) =
     (case (z_transcriptions (map_of kvs ''transcriptions''),
            z_extractionType (map_of kvs ''extractionType''),
            z_customSchema (map_of kvs ''customSchema'')) of
        (Some ts, Some ty, Some cs) \<Rightarrow>
          Some \<lparr> v_transcriptions = ts, v_extractionType = ty, v_customSchema = cs \<rparr>
      | _ \<Rightarrow> None)"
| "batchExtractionSchema_parse v = None"

subsection \<open>\<open>POST /batch\<close>, lines 79--125\<close>

text \<open>The \<open>catch\<close> block for an error that is no \<open>ZodError\<close>, lines 118--123.\<close>

definition batch_catch :: "thrown \<Rightarrow> 'a response" where
  "batch_catch err =
     (case err of
        Error m \<Rightarrow> if str_includes m ''rate limit''
                   then Failure 429 ''Rate limit exceeded for batch extraction''
                   else Failure 500 ''Batch data extraction failed''
      | NonError \<Rightarrow> Failure 500 ''Batch data extraction failed'')"

text \<open>
  The handler. \<open>api_key\<close> tells whether \<open>OPENAI_API_KEY\<close> is set, which the constructor
  of the service asks for. The result is the response (\<open>None\<close> when the handler never
  answers) and the trace of the orchestrator.
\<close>

definition batch_handler ::
  "bool \<Rightarrow> (nat \<Rightarrow> call_env) \<Rightarrow> (nat \<Rightarrow> nat list \<Rightarrow> nat list) \<Rightarrow> json
     \<Rightarrow> BatchExtractionResult list response option \<times> event list" where
  "batch_handler api_key envs sched body =
     (case batchExtractionSchema_parse body of
        None \<Rightarrow> (Some (Failure 400 ''Invalid batch extraction request''), [])
      | Some validatedData \<Rightarrow>
          if \<not> api_key
          then (Some (batch_catch (Error ''OPENAI_API_KEY environment variable is required'')), [])
          else
            (case extractDataBatch envs sched
                    \<lparr> transcriptions = v_transcriptions validatedData,
                      batch_extractionType = v_extractionType validatedData,
                      batch_customSchema = v_customSchema validatedData,
                      batch_userId = ''test-user'' \<rparr> of
               (None, tr) \<Rightarrow> (None, tr)
             | (Some (Inl err), tr) \<Rightarrow> (Some (batch_catch err), tr)
             | (Some (Inr batchResults), tr) \<Rightarrow> (Some (Success 200 batchResults), tr)))"

text \<open>The body a client sends for a list of items: what \<open>JSON.stringify\<close> makes of it.\<close>

definition item_json :: "TranscriptionItem \<Rightarrow> json" where
  "item_json item = JObj [(''id'', JStr (item_id item)), (''text'', JStr (item_text item))]"

definition batch_body :: "TranscriptionItem list \<Rightarrow> string \<Rightarrow> json" where
  "batch_body items ty = JObj [(''transcriptions'', JArr (map item_json items)), (''extractionType'', JStr ty)]"

subsection \<open>\<open>GET /schemas\<close>, lines 128--161\<close>

record comprehensive_schema =
  categories :: "(string \<times> string list) list"
  total_fields :: nat

definition comprehensive :: comprehensive_schema where
  "comprehensive =
     \<lparr> categories =
         [(''customer_information'', [''customer_name'', ''contact_info'', ''service_requests'']),
          (''vehicle_information'', [''vin'', ''vehicle_type'', ''type'', ''year'', ''make'', ''model'',
             ''body_style'', ''engine'', ''interior_color'', ''exterior_color'', ''paint_code'', ''trim_code'',
             ''license_plate'', ''license_state'', ''license_expiration'', ''job_number'', ''production_date'',
             ''mileage_in'', ''mileage_out'', ''fuel_level'']),
          (''damage_assessment'', [''repairable_condition'', ''primary_impact'', ''secondary_impact'',
             ''drivable_status'', ''impact_notes'', ''prior_damage_notes'', ''problem_description'', ''diagnosis'']),
          (''repair_work'', [''repairs_performed'', ''labor_type'', ''tasks_performed'', ''time_per_task'',
             ''total_hours'', ''labor_time'', ''difficulty_level'', ''technician_notes'']),
          (''parts_operations'', [''parts_used'', ''part_numbers'', ''part_descriptions'', ''quantities'',
             ''suppliers'', ''costs'', ''installation_notes'', ''paint_needed'', ''operation_notes'',
             ''estimate_line'', ''operation_type'', ''operation_description'', ''quantity'', ''unit_price'',
             ''estimated_total'']),
          (''recommendations'', [''recommendations''])],
       total_fields = 47 \<rparr>"

text \<open>The handler takes nothing from the request; of \<open>schemas\<close>, the member \<open>comprehensive\<close> is kept.\<close>

definition schemas_handler :: "comprehensive_schema response" where
  "schemas_handler = Success 200 comprehensive"

section \<open>Registration (src/routes/auth.ts)\<close>

record User =
  user_id :: string
  user_email :: string
  user_password :: string
  user_name :: string
  user_createdAt :: nat

record validated_register =
  v_email :: string
  v_password :: string
  v_name :: string

text \<open>
  The process-wide surroundings of the auth routes: zod's test for an e-mail address,
  the variable \<open>JWT_SECRET\<close>, and \<open>jwt.sign\<close> applied to the user's id, the user's
  e-mail and the secret.
\<close>

record auth_env =
  is_email :: "string \<Rightarrow> bool"
  JWT_SECRET :: "string option"
  jwt_sign :: "string \<Rightarrow> string \<Rightarrow> string \<Rightarrow> thrown + string"

text \<open>
  What one call of the handler draws from outside: how \<open>bcrypt.hash(password, 12)\<close>
  settles, the id made from \<open>Date.now()\<close> and \<open>Math.random()\<close>, and \<open>new Date()\<close>.
\<close>

record register_call =
  hashed :: "thrown + string"
  fresh_id :: string
  created :: nat

text \<open>\<open>registerSchema\<close>, lines 9--13.\<close>

fun registerSchema_parse :: "auth_env \<Rightarrow> json \<Rightarrow> validated_register option" where
  "registerSchema_parse env (JObj kvs) =
     (case (z_string 0 (map_of kvs ''email''), z_string 8 (map_of kvs ''password''),
            z_string 2 (map_of kvs ''name'')) of
        (Some e, Some p, Some n) \<Rightarrow>
          if is_email env e then Some \<lparr> v_email = e, v_password = p, v_name = n \<rparr> else None
      | _ \<Rightarrow> None)"
| "registerSchema_parse env v = None"

text \<open>\<open>generateToken\<close>, lines 32--42.\<close>

definition generateToken :: "auth_env \<Rightarrow> User \<Rightarrow> thrown + string" where
  "generateToken env user =
     (case JWT_SECRET env of
        None \<Rightarrow> Inl (Error ''JWT_SECRET environment variable is not set'')
      | Some secret \<Rightarrow>
          if secret = [] then Inl (Error ''JWT_SECRET environment variable is not set'')
          else jwt_sign env (user_id user) (user_email user) secret)"

text \<open>The payload of the 201 response: the token and the public fields of the user.\<close>

record registered =
  reg_token :: string
  reg_id :: string
  reg_email :: string
  reg_name :: string

text \<open>
  The handler of \<open>POST /register\<close>, lines 45--99, has one \<open>await\<close>, on \<open>bcrypt.hash\<close>
  (line 57), so it runs in two uninterrupted parts. The first part, up to the \<open>await\<close>:
  it either answers (\<open>Inl\<close>) or suspends with the validated data (\<open>Inr\<close>). It leaves
  the store as it is.
\<close>

definition register_begin :: "auth_env \<Rightarrow> json \<Rightarrow> User list \<Rightarrow> registered response + validated_register" where
  "register_begin env body users =
     (case registerSchema_parse env body of
        None \<Rightarrow> Inl (Failure 400 ''Validation failed'')
      | Some validatedData \<Rightarrow>
          (case find (\<lambda>u. user_email u = v_email validatedData) users of
             Some existingUser \<Rightarrow> Inl (Failure 400 ''User with this email already exists'')
           | None \<Rightarrow> Inr validatedData))"

text \<open>The second part, from the settled hash to the response, on the store as it is then.\<close>

definition register_resume ::
  "auth_env \<Rightarrow> register_call \<Rightarrow> validated_register \<Rightarrow> User list \<Rightarrow> registered response \<times> User list" where
  "register_resume env call validatedData users =
     (case hashed call of
        Inl err \<Rightarrow> (Failure 500 ''Registration failed'', users)
      | Inr hashedPassword \<Rightarrow>
          (let newUser = \<lparr> user_id = fresh_id call,
                           user_email = v_email validatedData,
                           user_password = hashedPassword,
                           user_name = v_name validatedData,
                           user_createdAt = created call \<rparr>;
               users' = users @ [newUser]
           in case generateToken env newUser of
                Inl err \<Rightarrow> (Failure 500 ''Registration failed'', users')
              | Inr token \<Rightarrow>
                  (Success 201 \<lparr> reg_token = token, reg_id = user_id newUser,
                                 reg_email = user_email newUser, reg_name = user_name newUser \<rparr>,
                   users')))"

text \<open>One call of the handler with no other request in between.\<close>

definition register :: "auth_env \<Rightarrow> register_call \<Rightarrow> json \<Rightarrow> User list \<Rightarrow> registered response \<times> User list" where
  "register env call body users =
     (case register_begin env body users of
        Inl response \<Rightarrow> (response, users)
      | Inr validatedData \<Rightarrow> register_resume env call validatedData users)"

text \<open>
  The server: the store, the calls suspended at their \<open>await\<close> and the responses sent,
  each under the number of its request. A request arrives and runs its first part; the
  hash of a suspended call settles and the call runs its second part.
\<close>

record server =
  users :: "User list"
  pending :: "(nat \<times> validated_register \<times> register_call) list"
  responses :: "(nat \<times> registered response) list"

datatype server_event = Arrive nat json register_call | HashSettled nat

fun server_step :: "auth_env \<Rightarrow> server \<Rightarrow> server_event \<Rightarrow> server" where
  "server_step env s (Arrive rid body call) =
     (case register_begin env body (users s) of
        Inl response \<Rightarrow> s \<lparr> responses := responses s @ [(rid, response)] \<rparr>
      | Inr validatedData \<Rightarrow> s \<lparr> pending := pending s @ [(rid, validatedData, call)] \<rparr>)"
| "server_step env s (HashSettled rid) =
     (case map_of (pending s) rid of
        None \<Rightarrow> s
      | Some (validatedData, call) \<Rightarrow>
          (let (response, users') = register_resume env call validatedData (users s)
           in \<lparr> users = users',
                pending = filter (\<lambda>p. fst p \<noteq> rid) (pending s),
                responses = responses s @ [(rid, response)] \<rparr>))"

definition server_run :: "auth_env \<Rightarrow> server \<Rightarrow> server_event list \<Rightarrow> server" where
  "server_run env s evs = foldl (server_step env) s evs"

definition server_start :: server where
  "server_start = \<lparr> users = [], pending = [], responses = [] \<rparr>"

section \<open>The rate limiter (src/unnamed/part_002, lines 25--34)\<close>

record limiter_options =
  windowMs :: int
  max_requests :: int
  limit_message :: string

text \<open>The options passed to \<open>rateLimit\<close>; \<open>max_requests\<close> is the option \<open>max\<close>.\<close>

definition limiter_options_of :: "process_env \<Rightarrow> limiter_options" where
  "limiter_options_of penv =
     \<lparr> windowMs = int_or (parseInt (env_or (penv ''RATE_LIMIT_WINDOW_MINUTES'') ''1'')) 1 * 60 * 1000,
       max_requests = int_or (parseInt (env_or (penv ''RATE_LIMIT_MAX_REQUESTS'') ''5'')) 5,
       limit_message = ''Too many requests from this IP, please try again later.'' \<rparr>"

text \<open>
  Modelled from the spec: the middleware \<open>rateLimit\<close> builds is the package
  express-rate-limit, which is not among the sources. The specification says: IP-scoped
  rate limiting, a window of configurable size per client IP; exceeding it yields HTTP 429
  with a fixed message and does not consume further processing; after the window elapses
  requests succeed again. Here: per client IP, the number of requests in the current
  window and the time at which that window ends. A window opens with the first request
  of the client after the previous one has ended.
\<close>

type_synonym limiter_store = "string \<Rightarrow> (nat \<times> int) option"

datatype gate = Next | Rejected nat string

definition limiter :: "limiter_options \<Rightarrow> limiter_store \<Rightarrow> string \<Rightarrow> int \<Rightarrow> gate \<times> limiter_store" where
  "limiter opts store ip now =
     (let hits = (case store ip of
                    None \<Rightarrow> (1, now + windowMs opts)
                  | Some (n, resetTime) \<Rightarrow>
                      if resetTime \<le> now then (1, now + windowMs opts) else (n + 1, resetTime))
      in (if int (fst hits) > max_requests opts then Rejected 429 (limit_message opts) else Next,
          store(ip \<mapsto> hits)))"

text \<open>
  \<open>app.use('/api', limiter)\<close> stands before every route below \<open>/api\<close>: the requests
  of a list, each with its client IP and arrival time, pass the limiter in order. The
  result tells for each whether it went on to the routes.
\<close>

fun api_requests :: "limiter_options \<Rightarrow> limiter_store \<Rightarrow> (string \<times> int) list \<Rightarrow> gate list" where
  "api_requests opts store [] = []"
| "api_requests opts store ((ip, now) # rs) =
     fst (limiter opts store ip now) # api_requests opts (snd (limiter opts store ip now)) rs"

section \<open>Transcription upload (src/routes/transcription.ts, src/services/speechToText.ts)\<close>

subsection \<open>The speech-to-text service\<close>

record TranscriptionOptions =
  opt_language :: "string option"
  opt_model :: string
  opt_timestamp :: bool
  opt_speakerDiarization :: bool

record upload_file =
  mimetype :: string
  originalname :: string
  file_size :: nat

record segment =
  seg_text :: string
  seg_start :: real
  seg_end :: real
  seg_speaker :: "string option"

record TranscriptionResult =
  t_text :: string
  t_language :: "string option"
  t_confidence :: "real option"
  t_segments :: "segment list option"
  t_model :: string
  t_duration :: "real option"
  t_wordCount :: nat

text \<open>The member \<open>data\<close> of what \<open>fal.subscribe\<close> resolves to.\<close>

record fal_chunk =
  chunk_text :: string
  chunk_timestamp :: "real \<times> real"
  chunk_speaker :: "string option"

record fal_data =
  fal_text :: string
  inferred_languages :: "string list option"
  chunks :: "fal_chunk list option"

text \<open>
  The remote provider: \<open>fal.storage.upload\<close> gives the URL of the stored file,
  \<open>fal.subscribe\<close> the transcript for a URL; either may throw.
\<close>

record fal_env =
  storage_upload :: "upload_file \<Rightarrow> thrown + string"
  subscribe :: "string \<Rightarrow> TranscriptionOptions \<Rightarrow> thrown + fal_data"

datatype remote_call = StorageUpload string | Subscribe string

text \<open>\<open>text.split(' ').length\<close>\<close>

definition wordCount :: "string \<Rightarrow> nat" where
  "wordCount s = Suc (length (filter (\<lambda>c. c = CHR '' '') s))"

text \<open>
  \<open>transcribeWithFalWhisper\<close>, lines 65--121, with the remote calls made, in order.
\<close>

definition transcribeWithFalWhisper ::
  "fal_env \<Rightarrow> upload_file \<Rightarrow> TranscriptionOptions \<Rightarrow> (thrown + TranscriptionResult) \<times> remote_call list" where
  "transcribeWithFalWhisper fal file options =
     (let rethrow = (\<lambda>err. Inl (Error (''Fal.ai Whisper transcription failed: '' @ message_or err ''Unknown error'')))
      in case storage_upload fal file of
           Inl err \<Rightarrow> (rethrow err, [StorageUpload (originalname file)])
         | Inr audioUrl \<Rightarrow>
             (case subscribe fal audioUrl options of
                Inl err \<Rightarrow> (rethrow err, [StorageUpload (originalname file), Subscribe audioUrl])
              | Inr d \<Rightarrow>
                  (Inr \<lparr> t_text = fal_text d,
                         t_language = (case inferred_languages d of
                                         None \<Rightarrow> None
                                       | Some ls \<Rightarrow> if ls = [] then None else Some (hd ls)),
                         t_confidence = Some 0.9,
                         t_segments = (case chunks d of
                                         None \<Rightarrow> None
                                       | Some cs \<Rightarrow>
                                           if cs = [] then None
                                           else Some (map (\<lambda>c. \<lparr> seg_text = chunk_text c,
                                                                  seg_start = fst (chunk_timestamp c),
                                                                  seg_end = snd (chunk_timestamp c),
                                                                  seg_speaker = chunk_speaker c \<rparr>) cs)),
                         t_model = ''fal-whisper'',
                         t_duration = None,
                         t_wordCount = wordCount (fal_text d) \<rparr>,
                   [StorageUpload (originalname file), Subscribe audioUrl])))"

definition placeholder :: "string \<Rightarrow> string \<Rightarrow> TranscriptionResult" where
  "placeholder txt model =
     \<lparr> t_text = txt, t_language = None, t_confidence = None, t_segments = None,
       t_model = model, t_duration = None, t_wordCount = 6 \<rparr>"

text \<open>\<open>transcribe\<close>, lines 45--63.\<close>

definition transcribe ::
  "fal_env \<Rightarrow> upload_file \<Rightarrow> TranscriptionOptions \<Rightarrow> (thrown + TranscriptionResult) \<times> remote_call list" where
  "transcribe fal file options =
     (let (outcome, calls) =
            (if opt_model options = ''fal-whisper'' then transcribeWithFalWhisper fal file options
             else if opt_model options = ''google''
               then (Inr (placeholder ''Google Speech-to-Text integration coming soon...'' ''google''), [])
             else if opt_model options = ''azure''
               then (Inr (placeholder ''Azure Speech Services integration coming soon...'' ''azure''), [])
             else (Inl (Error (''Unsupported transcription model: '' @ opt_model options)), []))
      in case outcome of
           Inl err \<Rightarrow> (Inl (Error (''Transcription failed: '' @ message_or err ''Unknown error'')), calls)
         | Inr r \<Rightarrow> (Inr r, calls))"

subsection \<open>The upload middleware, lines 10--34\<close>

definition allowedMimeTypes :: "string list" where
  "allowedMimeTypes = [''audio/mpeg'', ''audio/wav'', ''audio/mp3'', ''audio/mp4'', ''audio/m4a'',
                       ''audio/webm'', ''audio/flac'']"

text \<open>\<open>fileFilter\<close>: \<open>Inl\<close> is the error handed to the callback.\<close>

definition fileFilter :: "upload_file \<Rightarrow> thrown + bool" where
  "fileFilter file =
     (if mimetype file \<in> set allowedMimeTypes then Inr True
      else Inl (Error ''Invalid file type. Only audio files are allowed.''))"

text \<open>\<open>limits.fileSize\<close>\<close>

definition fileSize_limit :: "process_env \<Rightarrow> int option" where
  "fileSize_limit penv = parseInt (env_or (penv ''MAX_FILE_SIZE'') ''50000000'')"

text \<open>
  \<open>upload.single('audio')\<close> as the package multer runs it with these options: a file
  part goes through \<open>fileFilter\<close> first, and an error of the filter is passed to
  \<open>next\<close>; a file longer than \<open>limits.fileSize\<close> bytes is refused with the error
  \<open>File too large\<close>, passed to \<open>next\<close> as well; otherwise the file becomes \<open>req.file\<close>.
  Without a file part \<open>req.file\<close> stays undefined. A limit that is \<open>NaN\<close> limits nothing.
\<close>

definition upload_single :: "int option \<Rightarrow> upload_file option \<Rightarrow> thrown + upload_file option" where
  "upload_single limit part =
     (case part of
        None \<Rightarrow> Inr None
      | Some file \<Rightarrow>
          (case fileFilter file of
             Inl err \<Rightarrow> Inl err
           | Inr accepted \<Rightarrow>
               (case limit of
                  None \<Rightarrow> Inr (Some file)
                | Some n \<Rightarrow> if n < int (file_size file) then Inl (Error ''File too large'') else Inr (Some file))))"

subsection \<open>\<open>POST /upload\<close>, lines 45--104\<close>

text \<open>
  \<open>transcriptionOptionsSchema\<close>, lines 37--42, on the text fields of the form; \<open>None\<close>
  is the \<open>ZodError\<close>.
\<close>

definition transcriptionOptionsSchema_parse :: "(string \<Rightarrow> string option) \<Rightarrow> TranscriptionOptions option" where
  "transcriptionOptionsSchema_parse form =
     (let model = (case form ''model'' of None \<Rightarrow> Some ''fal-whisper''
                   | Some m \<Rightarrow> if m \<in> set [''fal-whisper'', ''google'', ''azure''] then Some m else None)
      in case model of
           None \<Rightarrow> None
         | Some m \<Rightarrow>
             Some \<lparr> opt_language = form ''language'',
                    opt_model = m,
                    opt_timestamp = (case form ''timestamp'' of None \<Rightarrow> True | Some v \<Rightarrow> v = ''true''),
                    opt_speakerDiarization =
                      (case form ''speakerDiarization'' of None \<Rightarrow> False | Some v \<Rightarrow> v = ''true'') \<rparr>)"

text \<open>The \<open>catch\<close> block for an error that is no \<open>ZodError\<close>, lines 90--102.\<close>

definition upload_catch :: "thrown \<Rightarrow> 'a response" where
  "upload_catch err =
     (case err of
        Error m \<Rightarrow>
          if str_includes m ''file type'' then Failure 400 m
          else if str_includes m ''File too large'' then Failure 400 ''File size too large''
          else Failure 500 ''Transcription failed''
      | NonError \<Rightarrow> Failure 500 ''Transcription failed'')"

definition upload_handler ::
  "process_env \<Rightarrow> fal_env \<Rightarrow> upload_file option \<Rightarrow> (string \<Rightarrow> string option)
     \<Rightarrow> TranscriptionResult response \<times> remote_call list" where
  "upload_handler penv fal req_file form =
     (case req_file of
        None \<Rightarrow> (Failure 400 ''No audio file provided'', [])
      | Some file \<Rightarrow>
          (case transcriptionOptionsSchema_parse form of
             None \<Rightarrow> (Failure 400 ''Invalid options provided'', [])
           | Some options \<Rightarrow>
               if env_or (penv ''FAL_KEY'') [] = []
               then (upload_catch (Error ''FAL_KEY environment variable is required''), [])
               else
                 (case transcribe fal file options of
                    (Inl err, calls) \<Rightarrow> (upload_catch err, calls)
                  | (Inr transcriptionResult, calls) \<Rightarrow> (Success 200 transcriptionResult, calls))))"

text \<open>
  Modelled from the spec: the error-handling middleware \<open>errorHandler\<close>
  (src/middleware/errorHandler.ts), which receives what a middleware passes to \<open>next\<close>,
  is not among the sources. The specification gives \<open>UnsupportedMediaError (400)\<close> and
  \<open>InternalError (500, catch-all)\<close>, and for the upload route \<open>400 bad file type/size\<close>.
  Here: the two errors with which the upload middleware refuses a file give 400, every
  other error gives 500.
\<close>

definition errorHandler :: "thrown \<Rightarrow> 'a response" where
  "errorHandler err =
     (case err of
        Error m \<Rightarrow>
          if m = ''Invalid file type. Only audio files are allowed.'' \<or> m = ''File too large''
          then Failure 400 m
          else Failure 500 ''Internal server error''
      | NonError \<Rightarrow> Failure 500 ''Internal server error'')"

text \<open>
  The route: the upload middleware, then the handler; an error of the middleware skips
  the handler and reaches \<open>errorHandler\<close>. The second component lists the calls made to
  the remote provider.
\<close>

definition upload_route ::
  "process_env \<Rightarrow> fal_env \<Rightarrow> upload_file option \<Rightarrow> (string \<Rightarrow> string option)
     \<Rightarrow> TranscriptionResult response \<times> remote_call list" where
  "upload_route penv fal part form =
     (case upload_single (fileSize_limit penv) part of
        Inl err \<Rightarrow> (errorHandler err, [])
      | Inr req_file \<Rightarrow> upload_handler penv fal req_file form)"

section \<open>Concrete inputs\<close>

text \<open>
  A provider that answers every prompt with \<open>{}\<close>, one that is down, one that reports
  a confidence of zero, and a batch of seven items.
\<close>

definition env_ok :: call_env where
  "env_ok =
     \<lparr> create = (\<lambda>p. Inr \<lparr> content = Some ''{}'', usage_prompt_tokens = Some 120,
                            usage_completion_tokens = Some 2, usage_total_tokens = Some 122 \<rparr>),
       JSON_parse = (\<lambda>s. if s = ''{}'' then Inr (JObj []) else Inl (Error ''Unexpected token'')),
       elapsed = 900 \<rparr>"

definition env_down :: call_env where
  "env_down = env_ok \<lparr> create := (\<lambda>p. Inl (Error ''Connection error.'')) \<rparr>"

definition env_empty :: call_env where
  "env_empty = env_ok \<lparr> create := (\<lambda>p. Inr \<lparr> content = None, usage_prompt_tokens = None,
                                              usage_completion_tokens = None, usage_total_tokens = None \<rparr>) \<rparr>"

definition env_garbled :: call_env where
  "env_garbled = env_ok \<lparr> create := (\<lambda>p. Inr \<lparr> content = Some ''not json'', usage_prompt_tokens = None,
                                                usage_completion_tokens = None, usage_total_tokens = None \<rparr>) \<rparr>"

definition env_zero_confidence :: call_env where
  \<open>env_zero_confidence =
     \<lparr> create = (\<lambda>p. Inr \<lparr> content = Some ''{"confidence": 0}'', usage_prompt_tokens = Some 120,
                            usage_completion_tokens = Some 5, usage_total_tokens = Some 125 \<rparr>),
       JSON_parse = (\<lambda>s. if s = ''{"confidence": 0}'' then Inr (JObj [(''confidence'', JNum 0)])
                          else Inl (Error ''Unexpected token'')),
       elapsed = 900 \<rparr>\<close>

definition labor_request :: ExtractionRequest where
  "labor_request =
     \<lparr> transcription = ''replaced the front brake pads'', extractionType = ''labor_hours'',
       customSchema = None, userId = ''test-user'' \<rparr>"

definition custom_request :: "CustomSchema option \<Rightarrow> ExtractionRequest" where
  "custom_request cs = labor_request \<lparr> extractionType := ''custom'', customSchema := cs \<rparr>"

definition empty_schema :: CustomSchema where
  "empty_schema = \<lparr> schema_fields = [], schema_description = [] \<rparr>"

definition items7 :: "TranscriptionItem list" where
  "items7 = map (\<lambda>i. \<lparr> item_id = i, item_text = ''replaced the front brake pads'' \<rparr>)
              [''t1'', ''t2'', ''t3'', ''t4'', ''t5'', ''t6'', ''t7'']"

definition request7 :: BatchExtractionRequest where
  "request7 = \<lparr> transcriptions = items7, batch_extractionType = ''labor_hours'',
                 batch_customSchema = None, batch_userId = ''test-user'' \<rparr>"

text \<open>The provider is down for the fourth item only.\<close>

definition envs7 :: "nat \<Rightarrow> call_env" where
  "envs7 k = (if k = 3 then env_down else env_ok)"

text \<open>The trace without the prompts.\<close>

definition not_call :: "event \<Rightarrow> bool" where
  "not_call e = (case e of RemoteCall k p \<Rightarrow> False | _ \<Rightarrow> True)"

text \<open>Two registrations of one e-mail address.\<close>

definition auth_env0 :: auth_env where
  "auth_env0 =
     \<lparr> is_email = (\<lambda>s. CHR ''@'' \<in> set s),
       JWT_SECRET = Some ''secret'',
       jwt_sign = (\<lambda>uid email secret. Inr (''token-'' @ uid)) \<rparr>"

definition body_ann :: json where
  "body_ann = JObj [(''email'', JStr ''ann@example.com''), (''password'', JStr ''correct horse''),
                    (''name'', JStr ''Ann'')]"

definition call1 :: register_call where
  "call1 = \<lparr> hashed = Inr ''hash-1'', fresh_id = ''user_1'', created = 1 \<rparr>"

definition call2 :: register_call where
  "call2 = \<lparr> hashed = Inr ''hash-2'', fresh_id = ''user_2'', created = 2 \<rparr>"

text \<open>An upload of a text file, an audio file of 60 MB, and a provider that is never reached.\<close>

definition text_file :: upload_file where
  "text_file = \<lparr> mimetype = ''text/plain'', originalname = ''notes.txt'', file_size = 12 \<rparr>"

definition big_file :: upload_file where
  "big_file = \<lparr> mimetype = ''audio/wav'', originalname = ''long.wav'', file_size = 60000000 \<rparr>"

definition fal_down :: fal_env where
  "fal_down = \<lparr> storage_upload = (\<lambda>f. Inl (Error ''unreachable'')),
                 subscribe = (\<lambda>url opts. Inl (Error ''unreachable'')) \<rparr>"

definition no_env :: process_env where
  "no_env = (\<lambda>name. None)"

declare chunks_of.simps [simp del]
declare extractDataBatch_loop.simps [simp del]

section \<open>The extraction service never rejects\<close>

lemma extractData_Inr: "\<exists>r. fst (extractData env request) = Inr r"
  by (cases "extractData_try env request"; cases "fst (extractData_try env request)")
     (auto simp: extractData_def)

lemma extractData_calls: "snd (extractData env request) = snd (extractData_try env request)"
  by (cases "extractData_try env request"; cases "fst (extractData_try env request)")
     (auto simp: extractData_def)

lemma extractData_caught:
  "fst (extractData_try env request) = Inl e \<Longrightarrow>
   fst (extractData env request) = Inr (catch_result env request e)"
  by (cases "extractData_try env request") (auto simp: extractData_def)

lemma process_item_result:
  "fst (extractData env (item_request request item)) = Inr r \<Longrightarrow>
   fst (process_item env request item) = Inr \<lparr> entry_id = item_id item, entry_result = r, entry_error = None \<rparr>"
  by (cases "extractData env (item_request request item)") (auto simp: process_item_def)

lemma process_item_Inr:
  "\<exists>r. fst (process_item env request item) = Inr \<lparr> entry_id = item_id item, entry_result = r, entry_error = None \<rparr>"
  using extractData_Inr[of env "item_request request item"] process_item_result by blast

section \<open>\<open>Promise.all\<close> on promises that all fulfil\<close>

lemma settle_all_Inr:
  assumes "\<forall>p \<in> set ps. \<exists>v. p = Inr v" "length slots = length ps"
  shows "\<exists>slots'. settle_all ks ps slots = Inr slots' \<and> length slots' = length ps \<and>
     (\<forall>k < length ps. slots' ! k = (if k \<in> set ks then Some (projr (ps ! k)) else slots ! k))"
  using assms
proof (induction ks arbitrary: slots)
  case Nil
  then show ?case by simp
next
  case (Cons k ks)
  show ?case
  proof (cases "k < length ps")
    case True
    then obtain v where v: "ps ! k = Inr v" using Cons.prems(1) nth_mem by blast
    from Cons.IH[of "slots[k := Some v]"] Cons.prems
    obtain slots' where s: "settle_all ks ps (slots[k := Some v]) = Inr slots'" "length slots' = length ps"
      "\<forall>j < length ps. slots' ! j = (if j \<in> set ks then Some (projr (ps ! j)) else (slots[k := Some v]) ! j)"
      by auto
    show ?thesis using True v s Cons.prems(2)
      by (auto simp: nth_list_update)
  next
    case False
    from Cons.IH[of slots] Cons.prems
    obtain slots' where s: "settle_all ks ps slots = Inr slots'" "length slots' = length ps"
      "\<forall>j < length ps. slots' ! j = (if j \<in> set ks then Some (projr (ps ! j)) else slots ! j)"
      by auto
    show ?thesis using False s by auto
  qed
qed

lemma Promise_all_fulfilled:
  assumes all: "\<forall>p \<in> set ps. \<exists>v. p = Inr v" and cover: "{..<length ps} \<subseteq> set settle_order"
  shows "Promise_all settle_order ps = Some (Inr (map projr ps))"
proof -
  obtain slots' where s: "settle_all settle_order ps (replicate (length ps) None) = Inr slots'"
     "length slots' = length ps"
     "\<forall>k < length ps. slots' ! k = (if k \<in> set settle_order then Some (projr (ps ! k)) else replicate (length ps) None ! k)"
    using settle_all_Inr[OF all, of "replicate (length ps) None" settle_order] by auto
  have nth: "\<forall>k < length ps. slots' ! k = Some (projr (ps ! k))"
    using s(3) cover by auto
  have "list_all (\<lambda>s. s \<noteq> None) slots'"
    using nth s(2) by (auto simp: list_all_length)
  moreover have "map the slots' = map projr ps"
    using nth s(2) by (auto intro!: nth_equalityI)
  ultimately show ?thesis using s(1) by (simp add: Promise_all_def)
qed

section \<open>The loop in closed form\<close>

lemma chunks_of_Nil [simp]: "chunks_of n [] = []"
  by (subst chunks_of.simps) simp

lemma chunks_of_Nil_iff: "0 < n \<Longrightarrow> chunks_of n xs = [] \<longleftrightarrow> xs = []"
  by (subst chunks_of.simps) simp

lemma chunks_of_step: "0 < n \<Longrightarrow> xs \<noteq> [] \<Longrightarrow> chunks_of n xs = take n xs # chunks_of n (drop n xs)"
  by (subst chunks_of.simps) simp

lemma concat_chunks_of: "0 < n \<Longrightarrow> concat (chunks_of n xs) = xs"
proof (induction n xs rule: chunks_of.induct)
  case (1 n xs)
  then show ?case by (subst chunks_of.simps) simp
qed

lemma chunks_of_lengths:
  "0 < n \<Longrightarrow> c \<in> set (chunks_of n xs) \<Longrightarrow> 0 < length c \<and> length c \<le> n"
proof (induction n xs rule: chunks_of.induct)
  case (1 n xs)
  show ?case
  proof (cases "xs = []")
    case True
    then show ?thesis using "1.prems" by simp
  next
    case False
    then have "c = take n xs \<or> c \<in> set (chunks_of n (drop n xs))"
      using "1.prems" chunks_of_step[of n xs] by auto
    then show ?thesis
      using "1.IH" "1.prems"(1) False by auto
  qed
qed

lemma chunks_of_full:
  "0 < n \<Longrightarrow> c \<in> set (butlast (chunks_of n xs)) \<Longrightarrow> length c = n"
proof (induction n xs rule: chunks_of.induct)
  case (1 n xs)
  show ?case
  proof (cases "xs = []")
    case True
    then show ?thesis using "1.prems" by simp
  next
    case False
    show ?thesis
    proof (cases "chunks_of n (drop n xs) = []")
      case True
      then show ?thesis
        using "1.prems" False chunks_of_step[of n xs] by simp
    next
      case rest: False
      then have "drop n xs \<noteq> []"
        using "1.prems"(1) chunks_of_Nil_iff by blast
      then have "n < length xs" by simp
      moreover have "c = take n xs \<or> c \<in> set (butlast (chunks_of n (drop n xs)))"
        using "1.prems" False rest chunks_of_step[of n xs] by auto
      ultimately show ?thesis
        using "1.IH" "1.prems"(1) False by auto
    qed
  qed
qed

lemma paced_Cons: "paced d (c # cs) = c @ (if cs = [] then [] else Delay d # paced d cs)"
  by (cases cs) simp_all

lemma zip_positions:
  "zip [i..<i + length (take m (drop i xs))] (take m (drop i xs)) = take m (drop i (zip [0..<length xs] xs))"
proof (rule nth_equalityI)
  show "length (zip [i..<i + length (take m (drop i xs))] (take m (drop i xs))) =
        length (take m (drop i (zip [0..<length xs] xs)))"
    by simp
next
  fix j
  assume "j < length (zip [i..<i + length (take m (drop i xs))] (take m (drop i xs)))"
  then have j: "j < m" "i + j < length xs"
    by auto
  then show "zip [i..<i + length (take m (drop i xs))] (take m (drop i xs)) ! j =
        take m (drop i (zip [0..<length xs] xs)) ! j"
    by simp
qed

lemma map_zip_map:
  "length ps = length bs \<Longrightarrow>
   map (\<lambda>(k, out). G k out) (zip ps (map (\<lambda>(k, b). F k b) (zip ps bs))) = map (\<lambda>(k, b). G k (F k b)) (zip ps bs)"
  by (induction ps bs rule: list_induct2) auto

lemma loop_closed:
  assumes perm: "\<forall>i ks. mset (sched i ks) = mset ks"
  shows "extractDataBatch_loop envs sched request i results tr =
     (Some (Inr (results @ map (\<lambda>(k, item). projr (fst (process_item (envs k) request item)))
                             (drop i (zip [0..<length (transcriptions request)] (transcriptions request))))),
      tr @ paced 1000 (map (chunk_events envs sched request)
             (chunks_of 3 (drop i (zip [0..<length (transcriptions request)] (transcriptions request))))))"
proof (induction "length (transcriptions request) - i" arbitrary: i results tr rule: less_induct)
  case less
  let ?items = "transcriptions request"
  let ?n = "length ?items"
  let ?L = "zip [0..<?n] ?items"
  let ?entry = "\<lambda>(k, item). projr (fst (process_item (envs k) request item))"
  show ?case
  proof (cases "i < ?n")
    case False
    then show ?thesis
      by (subst extractDataBatch_loop.simps) simp
  next
    case True
    define batch where "batch = take 3 (drop i ?items)"
    define c where "c = take 3 (drop i ?L)"
    have batch_ne: "batch \<noteq> []" using True by (simp add: batch_def)
    have zipc: "zip [i..<i + length batch] batch = c"
      unfolding batch_def c_def by (rule zip_positions)
    have lenc: "length c = length batch"
      using zipc[symmetric] by simp
    have "[i..<i + length batch] = i # [Suc i..<i + length batch]"
      using batch_ne by (simp add: upt_conv_Cons)
    then have hdc: "fst (hd c) = i"
      using batch_ne zipc[symmetric] by (cases batch) simp_all
    define outcomes where "outcomes = map (\<lambda>(k, item). process_item (envs k) request item) c"
    have all: "\<forall>p \<in> set (map fst outcomes). \<exists>v. p = Inr v"
      using process_item_Inr by (fastforce simp: outcomes_def)
    have "set (sched i [0..<length batch]) = set [0..<length batch]"
      using perm by (metis mset_eq_setD)
    then have sched_set: "set (sched i [0..<length batch]) = {..<length batch}"
      by (simp add: atLeast0LessThan)
    have "length (map fst outcomes) = length batch"
      by (simp add: outcomes_def lenc)
    then have cover: "{..<length (map fst outcomes)} \<subseteq> set (sched i [0..<length batch])"
      using sched_set by simp
    have pall: "Promise_all (sched i [0..<length batch]) (map fst outcomes) = Some (Inr (map ?entry c))"
      using Promise_all_fulfilled[OF all cover] by (simp add: outcomes_def case_prod_unfold comp_def)
    have started: "concat (map (\<lambda>(k, out). Dispatch k # map (RemoteCall k) (snd out))
              (zip [i..<i + length batch] (map (\<lambda>(k, item). process_item (envs k) request item) (zip [i..<i + length batch] batch))))
        = concat (map (\<lambda>(k, item). Dispatch k # map (RemoteCall k) (snd (process_item (envs k) request item))) c)"
      using map_zip_map[of "[i..<i + length batch]" batch
           "\<lambda>k out. Dispatch k # map (RemoteCall k) (snd out)" "\<lambda>k item. process_item (envs k) request item"]
      by (simp add: zipc)
    have ce: "chunk_events envs sched request c =
        concat (map (\<lambda>(k, item). Dispatch k # map (RemoteCall k) (snd (process_item (envs k) request item))) c)
        @ map (\<lambda>j. Settled (i + j)) (sched i [0..<length batch])"
      by (simp add: chunk_events_def hdc lenc)
    have dropL: "drop i ?L = c @ drop (i + 3) ?L"
      unfolding c_def by (metis append_take_drop_id drop_drop add.commute)
    have L_ne: "drop i ?L \<noteq> []" using True by simp
    have chunks: "chunks_of 3 (drop i ?L) = c # chunks_of 3 (drop (i + 3) ?L)"
      using chunks_of_step[of 3 "drop i ?L"] L_ne by (simp add: c_def add.commute)
    have IH: "extractDataBatch_loop envs sched request (i + 3) R T =
       (Some (Inr (R @ map ?entry (drop (i + 3) ?L))),
        T @ paced 1000 (map (chunk_events envs sched request) (chunks_of 3 (drop (i + 3) ?L))))" for R T
      using less[of "i + 3" R T] True by simp
    show ?thesis
      apply (subst extractDataBatch_loop.simps)
      apply (simp only: True if_True Let_def slice_def maxConcurrent_def add_diff_cancel_left' batch_def[symmetric])
      apply (simp only: zipc outcomes_def[symmetric])
      apply (simp only: pall option.case sum.case IH)
      apply (simp only: outcomes_def zipc[symmetric] started)
      apply (simp only: zipc)
      apply (subst dropL)
      apply (subst chunks)
      apply (simp add: paced_Cons ce chunks_of_Nil_iff)
      done
  qed
qed

lemma batch_closed:
  assumes "\<forall>i ks. mset (sched i ks) = mset ks"
  shows "extractDataBatch envs sched request =
     (Some (Inr (map (\<lambda>(k, item). projr (fst (process_item (envs k) request item)))
                    (zip [0..<length (transcriptions request)] (transcriptions request)))),
      paced 1000 (map (chunk_events envs sched request)
             (chunks_of 3 (zip [0..<length (transcriptions request)] (transcriptions request)))))"
  using loop_closed[OF assms, of envs request 0 "[]" "[]"] by (simp add: extractDataBatch_def)

lemma batch_entries:
  assumes "\<forall>i ks. mset (sched i ks) = mset ks"
  shows "\<exists>results. fst (extractDataBatch envs sched request) = Some (Inr results)
    \<and> length results = length (transcriptions request)
    \<and> map entry_id results = map item_id (transcriptions request)"
proof -
  let ?items = "transcriptions request"
  let ?L = "zip [0..<length ?items] ?items"
  let ?entry = "\<lambda>(k, item). projr (fst (process_item (envs k) request item))"
  have run: "fst (extractDataBatch envs sched request) = Some (Inr (map ?entry ?L))"
    using batch_closed[OF assms, of envs request] by simp
  have "entry_id (map ?entry ?L ! k) = item_id (?items ! k)" if "k < length ?items" for k
    using process_item_Inr[of "envs k" request "?items ! k"] that by auto
  then have "map entry_id (map ?entry ?L) = map item_id ?items"
    by (intro nth_equalityI) auto
  then show ?thesis
    using run by (intro exI[of _ "map ?entry ?L"]) simp
qed

section \<open>The batch orchestrator\<close>

text \<open>
  Claim C1. For every batch (of any length \<open>N\<close>, so also for \<open>1 \<le> N \<le> 10\<close>), when
  every promise of a chunk settles, \<open>extractDataBatch\<close> returns, and what it does is
  the schedule over consecutive chunks of size 3: each chunk dispatches its items in
  input order, then all its promises settle before the next chunk starts, and a delay
  of 1000 ms stands between two chunks and not after the last. It returns exactly \<open>N\<close>
  entries, their ids in input order, and the entry at position \<open>k\<close> is the one made
  for the item at position \<open>k\<close>, whatever the order in which the promises settle.
\<close>

theorem C1_batch_chunks:
  assumes "\<forall>i ks. mset (sched i ks) = mset ks"
  shows "\<exists>results.
      extractDataBatch envs sched request =
        (Some (Inr results),
         paced 1000 (map (chunk_events envs sched request)
           (chunks_of 3 (zip [0..<length (transcriptions request)] (transcriptions request)))))
    \<and> length results = length (transcriptions request)
    \<and> map entry_id results = map item_id (transcriptions request)
    \<and> (\<forall>k < length (transcriptions request).
          fst (process_item (envs k) request (transcriptions request ! k)) = Inr (results ! k))"
proof -
  let ?items = "transcriptions request"
  let ?L = "zip [0..<length ?items] ?items"
  let ?entry = "\<lambda>(k, item). projr (fst (process_item (envs k) request item))"
  have run: "extractDataBatch envs sched request =
      (Some (Inr (map ?entry ?L)), paced 1000 (map (chunk_events envs sched request) (chunks_of 3 ?L)))"
    using batch_closed[OF assms] .
  have ent: "fst (process_item (envs k) request (?items ! k)) = Inr (map ?entry ?L ! k)
      \<and> entry_id (map ?entry ?L ! k) = item_id (?items ! k)" if "k < length ?items" for k
    using process_item_Inr[of "envs k" request "?items ! k"] that by auto
  have ids: "map entry_id (map ?entry ?L) = map item_id ?items"
    by (rule nth_equalityI) (use ent in auto)
  show ?thesis
    using run ids ent by (intro exI[of _ "map ?entry ?L"]) simp
qed

text \<open>
  Seven items, the promises of every chunk settling in reverse order: the chunks have
  sizes 3, 3 and 1, the ids come back in input order, and the trace shows two delays.
\<close>

theorem C1_batch_chunks_witness:
  "(\<forall>i ks. mset (rev ks) = mset (ks :: nat list))
   \<and> map length (chunks_of 3 (transcriptions request7)) = [3, 3, 1]
   \<and> map entry_id (projr (the (fst (extractDataBatch envs7 (\<lambda>i. rev) request7))))
        = [''t1'', ''t2'', ''t3'', ''t4'', ''t5'', ''t6'', ''t7'']
   \<and> filter not_call (snd (extractDataBatch envs7 (\<lambda>i. rev) request7))
        = [Dispatch 0, Dispatch 1, Dispatch 2, Settled 2, Settled 1, Settled 0, Delay 1000,
           Dispatch 3, Dispatch 4, Dispatch 5, Settled 5, Settled 4, Settled 3, Delay 1000,
           Dispatch 6, Settled 6]"
proof -
  have perm: "\<forall>i ks. mset (rev ks) = mset (ks :: nat list)" by simp
  from C1_batch_chunks[of "\<lambda>i. rev" envs7 request7] perm
  obtain results where r: "extractDataBatch envs7 (\<lambda>i. rev) request7 =
        (Some (Inr results),
         paced 1000 (map (chunk_events envs7 (\<lambda>i. rev) request7)
           (chunks_of 3 (zip [0..<length (transcriptions request7)] (transcriptions request7)))))"
     "map entry_id results = map item_id (transcriptions request7)"
    by blast
  have items: "transcriptions request7 = items7" by (simp add: request7_def)
  have c1: "map length (chunks_of 3 (transcriptions request7)) = [3, 3, 1]"
    by (simp add: items items7_def chunks_of_step)
  have c2: "map entry_id results = [''t1'', ''t2'', ''t3'', ''t4'', ''t5'', ''t6'', ''t7'']"
    by (simp add: r(2) items items7_def)
  have upt7: "[0..<7] = [0, 1, 2, 3, 4, 5, 6]" by (simp add: upt_rec)
  have upt3: "[0..<3] = [0, 1, 2]" by (simp add: upt_rec)
  have c3: "filter not_call (paced 1000 (map (chunk_events envs7 (\<lambda>i. rev) request7)
           (chunks_of 3 (zip [0..<length (transcriptions request7)] (transcriptions request7)))))
        = [Dispatch 0, Dispatch 1, Dispatch 2, Settled 2, Settled 1, Settled 0, Delay 1000,
           Dispatch 3, Dispatch 4, Dispatch 5, Settled 5, Settled 4, Settled 3, Delay 1000,
           Dispatch 6, Settled 6]"
    by (simp add: items items7_def upt7 upt3 chunks_of_step chunk_events_def not_call_def)
  show ?thesis using perm c1 c2 c3 r(1) by simp
qed

text \<open>
  Claim C2. For every batch, the batch returns one entry per item, in input order. The
  entry of an item holds what \<open>extractData\<close> returned for that item alone; when the
  extraction of the item fails (its \<open>try\<close> block throws \<open>e\<close>), the entry carries the
  error indication \<open>success = false\<close> with the message of \<open>e\<close> under
  \<open>extractedData.error\<close>. No failure of an item ends the batch.
\<close>

theorem C2_item_failure_isolated:
  assumes "\<forall>i ks. mset (sched i ks) = mset ks"
  shows "\<exists>results.
      fst (extractDataBatch envs sched request) = Some (Inr results)
    \<and> length results = length (transcriptions request)
    \<and> (\<forall>k < length (transcriptions request).
          entry_id (results ! k) = item_id (transcriptions request ! k)
        \<and> fst (extractData (envs k) (item_request request (transcriptions request ! k)))
             = Inr (entry_result (results ! k))
        \<and> (\<forall>e. fst (extractData_try (envs k) (item_request request (transcriptions request ! k))) = Inl e
              \<longrightarrow> success (entry_result (results ! k)) = False
                \<and> extractedData (entry_result (results ! k))
                     = JObj [(''error'', JStr (message_or e ''Unknown extraction error''))]))"
proof -
  let ?items = "transcriptions request"
  let ?L = "zip [0..<length ?items] ?items"
  let ?entry = "\<lambda>(k, item). projr (fst (process_item (envs k) request item))"
  let ?results = "map ?entry ?L"
  have run: "fst (extractDataBatch envs sched request) = Some (Inr ?results)"
    using batch_closed[OF assms, of envs request] by simp
  have ent: "entry_id (?results ! k) = item_id (?items ! k)
        \<and> fst (extractData (envs k) (item_request request (?items ! k))) = Inr (entry_result (?results ! k))"
    if k: "k < length ?items" for k
  proof -
    obtain r where r: "fst (extractData (envs k) (item_request request (?items ! k))) = Inr r"
      using extractData_Inr by blast
    show ?thesis using process_item_result[OF r] r k by simp
  qed
  have fail: "success (entry_result (?results ! k)) = False
        \<and> extractedData (entry_result (?results ! k)) = JObj [(''error'', JStr (message_or e ''Unknown extraction error''))]"
    if k: "k < length ?items"
      and e: "fst (extractData_try (envs k) (item_request request (?items ! k))) = Inl e" for k e
  proof -
    have "entry_result (?results ! k) = catch_result (envs k) (item_request request (?items ! k)) e"
      using ent[OF k] extractData_caught[OF e] by (metis Inr_inject)
    then show ?thesis by (simp add: catch_result_def)
  qed
  show ?thesis
    using run ent fail by (intro exI[of _ ?results]) simp
qed

text \<open>
  Seven items with the provider down for the fourth only: seven entries come back, the
  fourth with the error, the six others successful.
\<close>

theorem C2_item_failure_isolated_witness:
  "(\<forall>i ks. mset (rev ks) = mset (ks :: nat list))
   \<and> fst (extractData_try (envs7 3) (item_request request7 (transcriptions request7 ! 3)))
        = Inl (Error ''Connection error.'')
   \<and> (\<exists>results. fst (extractDataBatch envs7 (\<lambda>i. rev) request7) = Some (Inr results)
        \<and> length results = 7
        \<and> map entry_id results = [''t1'', ''t2'', ''t3'', ''t4'', ''t5'', ''t6'', ''t7'']
        \<and> map (success \<circ> entry_result) results = [True, True, True, False, True, True, True]
        \<and> extractedData (entry_result (results ! 3)) = JObj [(''error'', JStr ''Connection error.'')])"
proof -
  have perm: "\<forall>i ks. mset (rev ks) = mset (ks :: nat list)" by simp
  have items: "transcriptions request7 = items7" by (simp add: request7_def)
  have len: "length (transcriptions request7) = 7" by (simp add: items items7_def)
  have ok: "fst (extractData env_ok (item_request request7 (transcriptions request7 ! k))) = Inr r
      \<Longrightarrow> success r" for k r
    by (auto simp: extractData_def extractData_try_def buildExtractionPrompt_def request7_def
        item_request_def env_ok_def js_or_def)
  have down: "fst (extractData_try (envs7 3) (item_request request7 (transcriptions request7 ! 3)))
        = Inl (Error ''Connection error.'')"
    by (simp add: extractData_try_def buildExtractionPrompt_def request7_def
        item_request_def env_ok_def env_down_def envs7_def)
  from C2_item_failure_isolated[of "\<lambda>i. rev" envs7 request7] perm
  obtain results where r: "fst (extractDataBatch envs7 (\<lambda>i. rev) request7) = Some (Inr results)"
     "length results = length (transcriptions request7)"
     "\<forall>k < length (transcriptions request7).
          entry_id (results ! k) = item_id (transcriptions request7 ! k)
        \<and> fst (extractData (envs7 k) (item_request request7 (transcriptions request7 ! k)))
             = Inr (entry_result (results ! k))
        \<and> (\<forall>e. fst (extractData_try (envs7 k) (item_request request7 (transcriptions request7 ! k))) = Inl e
              \<longrightarrow> success (entry_result (results ! k)) = False
                \<and> extractedData (entry_result (results ! k))
                     = JObj [(''error'', JStr (message_or e ''Unknown extraction error''))])"
    by blast
  have ids: "map entry_id results = map item_id (transcriptions request7)"
    by (rule nth_equalityI) (use r in auto)
  have s: "map (success \<circ> entry_result) results = [True, True, True, False, True, True, True]"
  proof (rule nth_equalityI)
    show "length (map (success \<circ> entry_result) results) = length [True, True, True, False, True, True, True]"
      using r(2) len by simp
  next
    fix k assume "k < length (map (success \<circ> entry_result) results)"
    then have k: "k < 7" using r(2) len by simp
    show "map (success \<circ> entry_result) results ! k = [True, True, True, False, True, True, True] ! k"
    proof (cases "k = 3")
      case True
      then show ?thesis using r(2,3) len down by simp
    next
      case False
      then have env: "envs7 k = env_ok" by (simp add: envs7_def)
      have "fst (extractData (envs7 k) (item_request request7 (transcriptions request7 ! k)))
          = Inr (entry_result (results ! k))"
        using r(3) k len by simp
      then have "fst (extractData env_ok (item_request request7 (transcriptions request7 ! k)))
          = Inr (entry_result (results ! k))"
        by (simp only: env)
      then have "success (entry_result (results ! k))"
        by (rule ok)
      moreover have "[True, True, True, False, True, True, True] ! k = True"
        using k False by (auto simp: nth_Cons split: nat.splits)
      ultimately show ?thesis using k r(2) len by simp
    qed
  qed
  have e3: "extractedData (entry_result (results ! 3)) = JObj [(''error'', JStr ''Connection error.'')]"
    using r(3) len down by simp
  show ?thesis
    using perm down r(1,2) len ids s e3 by (simp add: items items7_def)
qed

section \<open>The extraction adapter\<close>

lemma buildExtractionPrompt_custom_None:
  "buildExtractionPrompt tr ''custom'' None =
     Inl (Error ''Custom schema is required for custom extraction type'')"
  by (simp add: buildExtractionPrompt_def)

lemma buildExtractionPrompt_custom_Some:
  "\<exists>prompt. buildExtractionPrompt tr ''custom'' (Some schema) = Inr prompt"
  by (simp add: buildExtractionPrompt_def)

lemma extractData_try_no_prompt:
  "buildExtractionPrompt (transcription request) (extractionType request) (customSchema request) = Inl e
   \<Longrightarrow> extractData_try env request = (Inl e, [])"
  by (simp add: extractData_try_def)

lemma extractData_try_prompt:
  "buildExtractionPrompt (transcription request) (extractionType request) (customSchema request) = Inr prompt
   \<Longrightarrow> snd (extractData_try env request) = [prompt]"
  by (auto simp: extractData_try_def split: sum.splits option.splits)

lemma extractData_try_provider_throws:
  "buildExtractionPrompt (transcription request) (extractionType request) (customSchema request) = Inr prompt
   \<Longrightarrow> create env prompt = Inl e \<Longrightarrow> fst (extractData_try env request) = Inl e"
  by (simp add: extractData_try_def)

lemma extractData_try_no_content:
  "buildExtractionPrompt (transcription request) (extractionType request) (customSchema request) = Inr prompt
   \<Longrightarrow> create env prompt = Inr completion
   \<Longrightarrow> content completion = None \<or> content completion = Some []
   \<Longrightarrow> fst (extractData_try env request) = Inl (Error ''No response from extraction model'')"
  by (auto simp: extractData_try_def)

lemma extractData_try_unparsable:
  "buildExtractionPrompt (transcription request) (extractionType request) (customSchema request) = Inr prompt
   \<Longrightarrow> create env prompt = Inr completion
   \<Longrightarrow> content completion = Some responseText \<Longrightarrow> responseText \<noteq> []
   \<Longrightarrow> JSON_parse env responseText = Inl e
   \<Longrightarrow> fst (extractData_try env request) = Inl e"
  by (simp add: extractData_try_def)

text \<open>
  Claim C10. \<open>extractData\<close> never rejects: it resolves for every request and every
  behaviour of the provider. Whenever its \<open>try\<close> block throws, it resolves to the result
  of the \<open>catch\<close> block (\<open>success = false\<close>, \<open>confidence = 0\<close>, the extraction type of
  the request, the message under \<open>extractedData.error\<close>); the block throws when the
  custom schema is missing, when the provider throws, when the response is empty and
  when the output does not parse. So the per-item function of the batch never reaches its
  own \<open>catch\<close>: its entry has no \<open>error\<close>, and no entry of a returned batch has one.
\<close>

theorem C10_extractData_never_rejects:
  "(\<exists>r. fst (extractData env request) = Inr r)
   \<and> (\<forall>e. fst (extractData_try env request) = Inl e \<longrightarrow>
          fst (extractData env request) = Inr (catch_result env request e)
        \<and> success (catch_result env request e) = False
        \<and> confidence (catch_result env request e) = JNum 0
        \<and> result_extractionType (catch_result env request e) = extractionType request
        \<and> extractedData (catch_result env request e)
             = JObj [(''error'', JStr (message_or e ''Unknown extraction error''))])
   \<and> (extractionType request = ''custom'' \<and> customSchema request = None \<longrightarrow>
          fst (extractData_try env request)
            = Inl (Error ''Custom schema is required for custom extraction type''))
   \<and> (\<forall>prompt. buildExtractionPrompt (transcription request) (extractionType request)
                   (customSchema request) = Inr prompt \<longrightarrow>
          (\<forall>e. create env prompt = Inl e \<longrightarrow> fst (extractData_try env request) = Inl e)
        \<and> (\<forall>completion. create env prompt = Inr completion \<longrightarrow>
              (content completion = None \<or> content completion = Some [] \<longrightarrow>
                 fst (extractData_try env request) = Inl (Error ''No response from extraction model''))
            \<and> (\<forall>responseText e. content completion = Some responseText \<and> responseText \<noteq> []
                   \<and> JSON_parse env responseText = Inl e \<longrightarrow>
                 fst (extractData_try env request) = Inl e)))
   \<and> (\<exists>r. fst (process_item env batch item)
             = Inr \<lparr> entry_id = item_id item, entry_result = r, entry_error = None \<rparr>)
   \<and> ((\<forall>i ks. mset (sched i ks) = mset ks) \<longrightarrow>
        (\<exists>results. fst (extractDataBatch envs sched batch) = Some (Inr results)
           \<and> (\<forall>entry \<in> set results. entry_error entry = None)))"
proof -
  have a: "\<exists>r. fst (extractData env request) = Inr r"
    by (rule extractData_Inr)
  have b: "fst (extractData env request) = Inr (catch_result env request e)
        \<and> success (catch_result env request e) = False
        \<and> confidence (catch_result env request e) = JNum 0
        \<and> result_extractionType (catch_result env request e) = extractionType request
        \<and> extractedData (catch_result env request e)
             = JObj [(''error'', JStr (message_or e ''Unknown extraction error''))]"
    if "fst (extractData_try env request) = Inl e" for e
    using extractData_caught[OF that] by (simp add: catch_result_def)
  have c: "fst (extractData_try env request)
            = Inl (Error ''Custom schema is required for custom extraction type'')"
    if "extractionType request = ''custom'' \<and> customSchema request = None"
    using that extractData_try_no_prompt[of request _ env] buildExtractionPrompt_custom_None
    by simp
  have d: "(\<forall>e. create env prompt = Inl e \<longrightarrow> fst (extractData_try env request) = Inl e)
        \<and> (\<forall>completion. create env prompt = Inr completion \<longrightarrow>
              (content completion = None \<or> content completion = Some [] \<longrightarrow>
                 fst (extractData_try env request) = Inl (Error ''No response from extraction model''))
            \<and> (\<forall>responseText e. content completion = Some responseText \<and> responseText \<noteq> []
                   \<and> JSON_parse env responseText = Inl e \<longrightarrow>
                 fst (extractData_try env request) = Inl e))"
    if p: "buildExtractionPrompt (transcription request) (extractionType request)
                   (customSchema request) = Inr prompt" for prompt
    using extractData_try_provider_throws[OF p] extractData_try_no_content[OF p]
      extractData_try_unparsable[OF p]
    by blast
  have e: "\<exists>r. fst (process_item env batch item)
             = Inr \<lparr> entry_id = item_id item, entry_result = r, entry_error = None \<rparr>"
    by (rule process_item_Inr)
  have f: "\<exists>results. fst (extractDataBatch envs sched batch) = Some (Inr results)
           \<and> (\<forall>entry \<in> set results. entry_error entry = None)"
    if perm: "\<forall>i ks. mset (sched i ks) = mset ks"
  proof -
    let ?items = "transcriptions batch"
    let ?L = "zip [0..<length ?items] ?items"
    let ?entry = "\<lambda>(k, item). projr (fst (process_item (envs k) batch item))"
    have run: "fst (extractDataBatch envs sched batch) = Some (Inr (map ?entry ?L))"
      using batch_closed[OF perm, of envs batch] by simp
    have "entry_error (?entry p) = None" for p
      using process_item_Inr[of "envs (fst p)" batch "snd p"] by (cases p) auto
    then show ?thesis using run by auto
  qed
  show ?thesis
    using a b c d e f by blast
qed

text \<open>
  The four failures at concrete inputs: no custom schema, a provider that is down, an
  empty response, output that does not parse; and the batch of seven.
\<close>

theorem C10_extractData_never_rejects_witness:
  "fst (extractData env_ok (custom_request None))
     = Inr \<lparr> success = False,
             extractedData = JObj [(''error'', JStr ''Custom schema is required for custom extraction type'')],
             confidence = JNum 0, result_extractionType = ''custom'', processingTime = 900, tokens = None \<rparr>
   \<and> fst (extractData env_down labor_request)
     = Inr \<lparr> success = False, extractedData = JObj [(''error'', JStr ''Connection error.'')],
             confidence = JNum 0, result_extractionType = ''labor_hours'', processingTime = 900, tokens = None \<rparr>
   \<and> fst (extractData env_empty labor_request)
     = Inr \<lparr> success = False, extractedData = JObj [(''error'', JStr ''No response from extraction model'')],
             confidence = JNum 0, result_extractionType = ''labor_hours'', processingTime = 900, tokens = None \<rparr>
   \<and> fst (extractData env_garbled labor_request)
     = Inr \<lparr> success = False, extractedData = JObj [(''error'', JStr ''Unexpected token'')],
             confidence = JNum 0, result_extractionType = ''labor_hours'', processingTime = 900, tokens = None \<rparr>
   \<and> (\<forall>i ks. mset (rev ks) = mset (ks :: nat list))
   \<and> (\<exists>results. fst (extractDataBatch envs7 (\<lambda>i. rev) request7) = Some (Inr results)
          \<and> (\<forall>entry \<in> set results. entry_error entry = None))"
proof -
  have perm: "\<forall>i ks. mset (rev ks) = mset (ks :: nat list)" by simp
  have p: "\<exists>prompt. buildExtractionPrompt (transcription labor_request) (extractionType labor_request)
      (customSchema labor_request) = Inr prompt"
    by (simp add: labor_request_def buildExtractionPrompt_def)
  then obtain prompt where prompt: "buildExtractionPrompt (transcription labor_request)
      (extractionType labor_request) (customSchema labor_request) = Inr prompt" ..
  have t1: "fst (extractData_try env_ok (custom_request None))
      = Inl (Error ''Custom schema is required for custom extraction type'')"
    using C10_extractData_never_rejects[of env_ok "custom_request None"]
    by (simp add: custom_request_def)
  have t2: "fst (extractData_try env_down labor_request) = Inl (Error ''Connection error.'')"
    using C10_extractData_never_rejects[of env_down labor_request] prompt
    by (simp add: env_down_def)
  have t3: "fst (extractData_try env_empty labor_request) = Inl (Error ''No response from extraction model'')"
    using C10_extractData_never_rejects[of env_empty labor_request] prompt
    by (simp add: env_empty_def)
  have t4: "fst (extractData_try env_garbled labor_request) = Inl (Error ''Unexpected token'')"
    using C10_extractData_never_rejects[of env_garbled labor_request] prompt
    by (simp add: env_garbled_def env_ok_def)
  have r1: "fst (extractData env_ok (custom_request None))
      = Inr (catch_result env_ok (custom_request None) (Error ''Custom schema is required for custom extraction type''))"
    using C10_extractData_never_rejects[of env_ok "custom_request None"] t1 by blast
  have r2: "fst (extractData env_down labor_request)
      = Inr (catch_result env_down labor_request (Error ''Connection error.''))"
    using C10_extractData_never_rejects[of env_down labor_request] t2 by blast
  have r3: "fst (extractData env_empty labor_request)
      = Inr (catch_result env_empty labor_request (Error ''No response from extraction model''))"
    using C10_extractData_never_rejects[of env_empty labor_request] t3 by blast
  have r4: "fst (extractData env_garbled labor_request)
      = Inr (catch_result env_garbled labor_request (Error ''Unexpected token''))"
    using C10_extractData_never_rejects[of env_garbled labor_request] t4 by blast
  have b: "\<exists>results. fst (extractDataBatch envs7 (\<lambda>i. rev) request7) = Some (Inr results)
          \<and> (\<forall>entry \<in> set results. entry_error entry = None)"
    using C10_extractData_never_rejects[of env_ok labor_request request7 "hd items7" "\<lambda>i. rev" envs7] perm
    by blast
  show ?thesis
    using r1 r2 r3 r4 perm b
    by (simp add: catch_result_def custom_request_def labor_request_def env_ok_def env_down_def
        env_empty_def env_garbled_def)
qed

text \<open>
  Claim C3, as amended. For every extraction request with \<open>extractionType = custom\<close>:
  without a \<open>customSchema\<close>, \<open>extractData\<close> fails with the message \<open>Custom schema is
  required for custom extraction type\<close> (as a result with \<open>success = false\<close>) and sends
  nothing to the remote provider; with a \<open>customSchema\<close>, whatever its field list, the
  prompt is built and sent to the remote provider.
\<close>

theorem C3_custom_schema_required:
  assumes "extractionType request = ''custom''"
  shows "(customSchema request = None \<longrightarrow>
            extractData env request =
              (Inr (catch_result env request (Error ''Custom schema is required for custom extraction type'')), []))
       \<and> (\<forall>schema. customSchema request = Some schema \<longrightarrow>
            (\<exists>prompt. buildExtractionPrompt (transcription request) ''custom'' (Some schema) = Inr prompt
                     \<and> snd (extractData env request) = [prompt]))"
proof (intro conjI impI allI)
  assume none: "customSchema request = None"
  have "extractData_try env request =
      (Inl (Error ''Custom schema is required for custom extraction type''), [])"
    using assms none by (simp add: extractData_try_no_prompt buildExtractionPrompt_custom_None)
  then show "extractData env request =
      (Inr (catch_result env request (Error ''Custom schema is required for custom extraction type'')), [])"
    by (simp add: extractData_def)
next
  fix schema
  assume some: "customSchema request = Some schema"
  obtain prompt where p: "buildExtractionPrompt (transcription request) ''custom'' (Some schema) = Inr prompt"
    using buildExtractionPrompt_custom_Some by blast
  then have "snd (extractData_try env request) = [prompt]"
    using assms some extractData_try_prompt[of request prompt env] by simp
  then show "\<exists>prompt. buildExtractionPrompt (transcription request) ''custom'' (Some schema) = Inr prompt
                     \<and> snd (extractData env request) = [prompt]"
    using p by (simp add: extractData_calls)
qed

text \<open>Without a schema nothing is sent; with the empty schema one prompt is sent.\<close>

theorem C3_custom_schema_required_witness:
  "extractionType (custom_request None) = ''custom''
   \<and> snd (extractData env_ok (custom_request None)) = []
   \<and> success (projr (fst (extractData env_ok (custom_request None)))) = False
   \<and> extractionType (custom_request (Some empty_schema)) = ''custom''
   \<and> length (snd (extractData env_ok (custom_request (Some empty_schema)))) = 1"
proof -
  have t1: "extractionType (custom_request None) = ''custom''"
    and t2: "extractionType (custom_request (Some empty_schema)) = ''custom''"
    by (simp_all add: custom_request_def)
  have n: "customSchema (custom_request None) = None"
    and s: "customSchema (custom_request (Some empty_schema)) = Some empty_schema"
    by (simp_all add: custom_request_def)
  have a: "extractData env_ok (custom_request None) =
      (Inr (catch_result env_ok (custom_request None)
              (Error ''Custom schema is required for custom extraction type'')), [])"
    using C3_custom_schema_required[OF t1, of env_ok] n by blast
  have b: "\<exists>prompt. snd (extractData env_ok (custom_request (Some empty_schema))) = [prompt]"
    using C3_custom_schema_required[OF t2, of env_ok] s by blast
  show ?thesis
    using t1 t2 a b by (auto simp: catch_result_def)
qed

text \<open>
  The claim as stated fails for a custom schema with an empty field list: the request
  is not refused, the prompt goes to the remote provider and the extraction succeeds.
\<close>

theorem C3_empty_field_list_counterexample:
  "extractionType (custom_request (Some empty_schema)) = ''custom''
   \<and> schema_fields (the (customSchema (custom_request (Some empty_schema)))) = []
   \<and> length (snd (extractData env_ok (custom_request (Some empty_schema)))) = 1
   \<and> success (projr (fst (extractData env_ok (custom_request (Some empty_schema))))) = True"
  by (simp add: custom_request_def empty_schema_def labor_request_def extractData_def
      extractData_try_def buildExtractionPrompt_def env_ok_def js_or_def)

section \<open>The confidence of a successful extraction\<close>

lemma extractData_try_confidence:
  assumes "fst (extractData_try env request) = Inr r"
  shows "\<exists>c. get_prop (extractedData r) ''confidence'' = Inr c \<and> confidence r = js_or c (JNum 0.8)"
  using assms
  by (auto simp: extractData_try_def split: sum.splits option.splits if_splits)

lemma confidence_default:
  assumes "fst (extractData_try env request) = Inr r" "extractedData r = JObj kvs"
    "map_of kvs ''confidence'' = None"
  shows "confidence r = JNum 0.8"
  using extractData_try_confidence[OF assms(1)] assms(2,3) by (auto simp: js_or_def)

lemma confidence_truthy:
  assumes "fst (extractData_try env request) = Inr r" "extractedData r = JObj kvs"
    "map_of kvs ''confidence'' = Some v" "js_truthy (Some v)"
  shows "confidence r = v"
  using extractData_try_confidence[OF assms(1)] assms(2,3,4) by (auto simp: js_or_def)

text \<open>
  Claim C5 at the input where the code departs from it. The provider answers
  \<open>{"confidence": 0}\<close>: the parsed output has a confidence field, of value \<open>0\<close>, and the
  extraction succeeds, yet the result carries the confidence \<open>0.8\<close> and not the value the
  provider supplied, because \<open>extractedData.confidence || 0.8\<close> takes \<open>0\<close> for a missing
  value.
\<close>

theorem C5_zero_confidence_replaced:
  "get_prop (JObj [(''confidence'', JNum 0)]) ''confidence'' = Inr (Some (JNum 0))
   \<and> fst (extractData env_zero_confidence labor_request) =
       Inr \<lparr> success = True,
             extractedData = JObj [(''confidence'', JNum 0)],
             confidence = JNum 0.8,
             result_extractionType = ''labor_hours'',
             processingTime = 900,
             tokens = Some \<lparr> prompt_tokens = 120, completion_tokens = 5, total_tokens = 125 \<rparr> \<rparr>"
  by (simp add: labor_request_def extractData_def extractData_try_def buildExtractionPrompt_def
      env_zero_confidence_def js_or_def)

section \<open>The extraction routes\<close>

text \<open>
  Claim C4 against the code. \<open>GET /schemas\<close> answers 200 with the catalogue; its
  comprehensive type lists exactly the six categories, but the field names listed under
  them are 55 (3 + 20 + 8 + 8 + 15 + 1), all different, while the catalogue itself gives
  \<open>total_fields = 47\<close>.
\<close>

theorem C4_catalogue_lists_55_fields:
  "schemas_handler = Success 200 comprehensive
   \<and> map fst (categories comprehensive)
       = [''customer_information'', ''vehicle_information'', ''damage_assessment'', ''repair_work'',
          ''parts_operations'', ''recommendations'']
   \<and> map (length \<circ> snd) (categories comprehensive) = [3, 20, 8, 8, 15, 1]
   \<and> length (concat (map snd (categories comprehensive))) = 55
   \<and> distinct (concat (map snd (categories comprehensive)))
   \<and> total_fields comprehensive = 47"
  by (simp add: schemas_handler_def comprehensive_def)

lemma z_item_item_json:
  "10 \<le> length (item_text item) \<Longrightarrow> z_item (item_json item) = Some item"
  by (simp add: item_json_def)

lemma z_transcriptions_items:
  assumes "1 \<le> length items" "length items \<le> 10" "\<forall>it \<in> set items. 10 \<le> length (item_text it)"
  shows "z_transcriptions (Some (JArr (map item_json items))) = Some items"
proof -
  have each: "\<forall>it \<in> set items. z_item (item_json it) = Some it"
    using assms(3) z_item_item_json by blast
  then have "list_all (\<lambda>x. z_item x \<noteq> None) (map item_json items)"
    by (simp add: list_all_iff)
  moreover have "map (\<lambda>x. the (z_item x)) (map item_json items) = items"
    using each by (simp add: map_idI)
  ultimately show ?thesis using assms(1,2) by simp
qed

lemma batch_body_parse:
  assumes "1 \<le> length items" "length items \<le> 10" "\<forall>it \<in> set items. 10 \<le> length (item_text it)"
    "ty \<in> set extractionTypes"
  shows "batchExtractionSchema_parse (batch_body items ty)
     = Some \<lparr> v_transcriptions = items, v_extractionType = ty, v_customSchema = None \<rparr>"
  using z_transcriptions_items[OF assms(1,2,3)] assms(4) by (simp add: batch_body_def)

lemma z_transcriptions_bounds:
  "z_transcriptions v = Some ts \<Longrightarrow> 1 \<le> length ts \<and> length ts \<le> 10"
  by (cases v rule: z_transcriptions.cases) (auto split: if_splits)

lemma parse_bounds:
  "batchExtractionSchema_parse body = Some v \<Longrightarrow>
   1 \<le> length (v_transcriptions v) \<and> length (v_transcriptions v) \<le> 10"
  by (cases body) (auto split: option.splits dest: z_transcriptions_bounds)

lemma parse_rejects_size:
  assumes "map_of kvs ''transcriptions'' = Some (JArr xs)" "xs = [] \<or> 10 < length xs"
  shows "batchExtractionSchema_parse (JObj kvs) = None"
  using assms by auto

text \<open>
  Claim C7. \<open>POST /api/extraction/batch\<close>: a body whose \<open>transcriptions\<close> array has no
  item or more than ten fails validation, the answer is 400 and the orchestrator has
  done nothing; whatever passes validation has between 1 and 10 items; and a body of 1
  to 10 well-formed items (an id, a text of at least 10 characters) with an extraction
  type of the enumeration passes validation and, with the service configured and every
  remote call settling, is answered 200 with one result per item.
\<close>

theorem C7_batch_size_validated:
  "(\<forall>kvs xs. body = JObj kvs \<and> map_of kvs ''transcriptions'' = Some (JArr xs)
        \<and> (xs = [] \<or> 10 < length xs) \<longrightarrow>
      batch_handler api_key envs sched body
        = (Some (Failure 400 ''Invalid batch extraction request''), []))
   \<and> (\<forall>v. batchExtractionSchema_parse body = Some v \<longrightarrow>
         1 \<le> length (v_transcriptions v) \<and> length (v_transcriptions v) \<le> 10)
   \<and> (1 \<le> length items \<and> length items \<le> 10 \<and> (\<forall>it \<in> set items. 10 \<le> length (item_text it))
        \<and> ty \<in> set extractionTypes \<and> (\<forall>i ks. mset (sched i ks) = mset ks) \<longrightarrow>
         batchExtractionSchema_parse (batch_body items ty)
           = Some \<lparr> v_transcriptions = items, v_extractionType = ty, v_customSchema = None \<rparr>
       \<and> (\<exists>results. fst (batch_handler True envs sched (batch_body items ty)) = Some (Success 200 results)
             \<and> length results = length items
             \<and> map entry_id results = map item_id items))"
proof (intro conjI allI impI)
  fix kvs xs
  assume "body = JObj kvs \<and> map_of kvs ''transcriptions'' = Some (JArr xs) \<and> (xs = [] \<or> 10 < length xs)"
  then have "batchExtractionSchema_parse body = None"
    by (auto dest: parse_rejects_size)
  then show "batch_handler api_key envs sched body
        = (Some (Failure 400 ''Invalid batch extraction request''), [])"
    by (simp add: batch_handler_def)
next
  fix v assume "batchExtractionSchema_parse body = Some v"
  then show "1 \<le> length (v_transcriptions v)" "length (v_transcriptions v) \<le> 10"
    using parse_bounds by blast+
next
  assume h: "1 \<le> length items \<and> length items \<le> 10 \<and> (\<forall>it \<in> set items. 10 \<le> length (item_text it))
        \<and> ty \<in> set extractionTypes \<and> (\<forall>i ks. mset (sched i ks) = mset ks)"
  then show parse: "batchExtractionSchema_parse (batch_body items ty)
           = Some \<lparr> v_transcriptions = items, v_extractionType = ty, v_customSchema = None \<rparr>"
    using batch_body_parse by blast
  let ?request = "\<lparr> transcriptions = items, batch_extractionType = ty,
                     batch_customSchema = None, batch_userId = ''test-user'' \<rparr>"
  from h have perm: "\<forall>i ks. mset (sched i ks) = mset ks" by blast
  obtain results where r: "fst (extractDataBatch envs sched ?request) = Some (Inr results)"
      "length results = length (transcriptions ?request)"
      "map entry_id results = map item_id (transcriptions ?request)"
    using batch_entries[OF perm, of envs ?request] by blast
  show "\<exists>results. fst (batch_handler True envs sched (batch_body items ty)) = Some (Success 200 results)
             \<and> length results = length items \<and> map entry_id results = map item_id items"
    using parse r by (cases "extractDataBatch envs sched ?request") (simp add: batch_handler_def)
qed

text \<open>
  An empty batch and a batch of eleven items are answered 400 before anything is
  dispatched; the batch of seven is answered 200 with seven results.
\<close>

theorem C7_batch_size_validated_witness:
  "batch_handler True envs7 (\<lambda>i. rev) (batch_body [] ''labor_hours'')
     = (Some (Failure 400 ''Invalid batch extraction request''), [])
   \<and> batch_handler True envs7 (\<lambda>i. rev) (batch_body (replicate 11 (hd items7)) ''labor_hours'')
     = (Some (Failure 400 ''Invalid batch extraction request''), [])
   \<and> (\<exists>v. batchExtractionSchema_parse (batch_body items7 ''labor_hours'') = Some v
          \<and> 1 \<le> length (v_transcriptions v) \<and> length (v_transcriptions v) \<le> 10)
   \<and> (\<exists>results. fst (batch_handler True envs7 (\<lambda>i. rev) (batch_body items7 ''labor_hours''))
          = Some (Success 200 results) \<and> length results = 7)"
proof -
  have a: "batch_handler True envs7 (\<lambda>i. rev) (batch_body [] ''labor_hours'')
     = (Some (Failure 400 ''Invalid batch extraction request''), [])"
    using C7_batch_size_validated[of "batch_body [] ''labor_hours''" True envs7 "\<lambda>i. rev"]
    by (simp add: batch_body_def)
  have b: "batch_handler True envs7 (\<lambda>i. rev) (batch_body (replicate 11 (hd items7)) ''labor_hours'')
     = (Some (Failure 400 ''Invalid batch extraction request''), [])"
    using C7_batch_size_validated[of "batch_body (replicate 11 (hd items7)) ''labor_hours''" True envs7 "\<lambda>i. rev"]
    by (simp add: batch_body_def)
  have h: "1 \<le> length items7 \<and> length items7 \<le> 10 \<and> (\<forall>it \<in> set items7. 10 \<le> length (item_text it))
        \<and> ''labor_hours'' \<in> set extractionTypes \<and> (\<forall>i ks. mset (rev ks) = mset (ks :: nat list))"
    by (simp add: items7_def extractionTypes_def)
  have c: "batchExtractionSchema_parse (batch_body items7 ''labor_hours'')
           = Some \<lparr> v_transcriptions = items7, v_extractionType = ''labor_hours'', v_customSchema = None \<rparr>
       \<and> (\<exists>results. fst (batch_handler True envs7 (\<lambda>i. rev) (batch_body items7 ''labor_hours''))
              = Some (Success 200 results)
             \<and> length results = length items7
             \<and> map entry_id results = map item_id items7)"
    using C7_batch_size_validated[of "batch_body items7 ''labor_hours''" True envs7 "\<lambda>i. rev" items7 "''labor_hours''"] h
    by blast
  have d: "1 \<le> length (v_transcriptions v) \<and> length (v_transcriptions v) \<le> 10"
    if "batchExtractionSchema_parse (batch_body items7 ''labor_hours'') = Some v" for v
    using C7_batch_size_validated[of "batch_body items7 ''labor_hours''" True envs7 "\<lambda>i. rev"] that
    by blast
  have len: "length items7 = 7" by (simp add: items7_def)
  show ?thesis
    using a b c d len by auto
qed

section \<open>Registration\<close>

lemma register_duplicate:
  assumes "registerSchema_parse env body = Some v" "v_email v \<in> user_email ` set store"
  shows "register env call body store = (Failure 400 ''User with this email already exists'', store)"
proof -
  have "find (\<lambda>u. user_email u = v_email v) store \<noteq> None"
    using assms(2) by (auto simp: find_None_iff)
  then show ?thesis
    using assms(1) by (auto simp: register_def register_begin_def)
qed

lemma register_emails:
  "map user_email (snd (register env call body store)) = map user_email store
   \<or> (\<exists>v. registerSchema_parse env body = Some v \<and> v_email v \<notin> user_email ` set store
          \<and> map user_email (snd (register env call body store)) = map user_email store @ [v_email v])"
  by (auto simp: register_def register_begin_def register_resume_def Let_def find_None_iff
      split: option.splits sum.splits)

lemma register_preserves_distinct:
  assumes "distinct (map user_email store)"
  shows "distinct (map user_email (snd (register env call body store)))"
  using register_emails[of env call body store] assms by auto

text \<open>
  Claim C8 at the input where the code departs from it. Run one after the other, the
  second registration of an e-mail address is answered 400 and the store keeps its single
  record. But the handler checks the store, then awaits \<open>bcrypt.hash\<close>, then inserts: when
  the second request arrives while the first awaits its hash, both pass the check, both
  are answered 201 and the store holds two records with the same e-mail address.
\<close>

theorem C8_overlapping_registrations_duplicate:
  "map user_email (users (server_run auth_env0 server_start
       [Arrive 1 body_ann call1, HashSettled 1, Arrive 2 body_ann call2, HashSettled 2]))
     = [''ann@example.com'']
   \<and> map (\<lambda>(rid, r). (rid, status r)) (responses (server_run auth_env0 server_start
       [Arrive 1 body_ann call1, HashSettled 1, Arrive 2 body_ann call2, HashSettled 2]))
     = [(1, 201), (2, 400)]
   \<and> map user_email (users (server_run auth_env0 server_start
       [Arrive 1 body_ann call1, Arrive 2 body_ann call2, HashSettled 1, HashSettled 2]))
     = [''ann@example.com'', ''ann@example.com'']
   \<and> map (\<lambda>(rid, r). (rid, status r)) (responses (server_run auth_env0 server_start
       [Arrive 1 body_ann call1, Arrive 2 body_ann call2, HashSettled 1, HashSettled 2]))
     = [(1, 201), (2, 201)]"
  by (simp add: server_run_def server_start_def auth_env0_def body_ann_def call1_def call2_def
      register_begin_def register_resume_def generateToken_def Let_def)

section \<open>The rate limiter\<close>

lemma parseInt_1: "parseInt ''1'' = Some 1"
  by (simp add: parseInt_def is_space_def digit_of_def Let_def)

lemma parseInt_5: "parseInt ''5'' = Some 5"
  by (simp add: parseInt_def is_space_def digit_of_def Let_def)

lemma parseInt_50000000: "parseInt ''50000000'' = Some 50000000"
  by (simp add: parseInt_def is_space_def digit_of_def Let_def)

lemma default_limiter_options:
  "limiter_options_of no_env =
     \<lparr> windowMs = 60000, max_requests = 5,
       limit_message = ''Too many requests from this IP, please try again later.'' \<rparr>"
  by (simp add: limiter_options_of_def no_env_def env_or_def int_or_def parseInt_1 parseInt_5)

lemma limiter_opens_window:
  assumes "store ip = None \<or> (\<exists>n r. store ip = Some (n, r) \<and> r \<le> now)" "1 \<le> max_requests opts"
  shows "limiter opts store ip now = (Next, store(ip \<mapsto> (1, now + windowMs opts)))"
  using assms by (auto simp: limiter_def)

lemma limiter_in_window:
  assumes "store ip = Some (n, r)" "now < r" "n' = n + 1"
  shows "limiter opts store ip now =
     (if int n' > max_requests opts then Rejected 429 (limit_message opts) else Next,
      store(ip \<mapsto> (n', r)))"
  using assms by (simp add: limiter_def)

lemma limiter_other_client:
  "ip' \<noteq> ip \<Longrightarrow> snd (limiter opts store ip' now) ip = store ip"
  by (simp add: limiter_def Let_def)

text \<open>
  Claim C9. Under the default configuration (no variable set: a window of 60000 ms and
  at most 5 requests), for a client IP with no window open: of six requests within 60
  seconds of the first, five go on and the sixth is answered 429 with the fixed message
  and does not go on; a request once the window has elapsed goes on again. Requests of
  another IP leave the count of this one as it is.
\<close>

theorem C9_default_rate_limit:
  assumes "store ip = None \<or> (\<exists>n r. store ip = Some (n, r) \<and> r \<le> t1)"
    and "t1 \<le> t2" "t2 \<le> t3" "t3 \<le> t4" "t4 \<le> t5" "t5 \<le> t6"
    and "t6 < t1 + 60000" "t1 + 60000 \<le> t7"
  shows "windowMs (limiter_options_of no_env) = 60000
       \<and> max_requests (limiter_options_of no_env) = 5
       \<and> api_requests (limiter_options_of no_env) store
            [(ip, t1), (ip, t2), (ip, t3), (ip, t4), (ip, t5), (ip, t6), (ip, t7)]
          = [Next, Next, Next, Next, Next,
             Rejected 429 ''Too many requests from this IP, please try again later.'', Next]
       \<and> (\<forall>ip' now. ip' \<noteq> ip \<longrightarrow> snd (limiter (limiter_options_of no_env) store ip' now) ip = store ip)"
proof -
  let ?opts = "limiter_options_of no_env"
  have w: "windowMs ?opts = 60000" and m: "max_requests ?opts = 5"
    and msg: "limit_message ?opts = ''Too many requests from this IP, please try again later.''"
    by (simp_all add: default_limiter_options)
  define s1 where "s1 = store(ip \<mapsto> (1, t1 + 60000))"
  define s2 where "s2 = s1(ip \<mapsto> (2, t1 + 60000))"
  define s3 where "s3 = s2(ip \<mapsto> (3, t1 + 60000))"
  define s4 where "s4 = s3(ip \<mapsto> (4, t1 + 60000))"
  define s5 where "s5 = s4(ip \<mapsto> (5, t1 + 60000))"
  define s6 where "s6 = s5(ip \<mapsto> (6, t1 + 60000))"
  have l1: "limiter ?opts store ip t1 = (Next, s1)"
    using limiter_opens_window[of store ip t1 ?opts] assms(1) by (simp add: w m s1_def)
  have l2: "limiter ?opts s1 ip t2 = (Next, s2)"
    using limiter_in_window[of s1 ip 1 "t1 + 60000" t2 2 ?opts] assms by (simp add: m s1_def s2_def)
  have l3: "limiter ?opts s2 ip t3 = (Next, s3)"
    using limiter_in_window[of s2 ip 2 "t1 + 60000" t3 3 ?opts] assms by (simp add: m s2_def s3_def)
  have l4: "limiter ?opts s3 ip t4 = (Next, s4)"
    using limiter_in_window[of s3 ip 3 "t1 + 60000" t4 4 ?opts] assms by (simp add: m s3_def s4_def)
  have l5: "limiter ?opts s4 ip t5 = (Next, s5)"
    using limiter_in_window[of s4 ip 4 "t1 + 60000" t5 5 ?opts] assms by (simp add: m s4_def s5_def)
  have l6: "limiter ?opts s5 ip t6 = (Rejected 429 ''Too many requests from this IP, please try again later.'', s6)"
    using limiter_in_window[of s5 ip 5 "t1 + 60000" t6 6 ?opts] assms by (simp add: m msg s5_def s6_def)
  have "s6 ip = None \<or> (\<exists>n r. s6 ip = Some (n, r) \<and> r \<le> t7)"
    using assms by (simp add: s6_def)
  then have l7: "fst (limiter ?opts s6 ip t7) = Next"
    using limiter_opens_window[of s6 ip t7 ?opts] by (simp add: m)
  show ?thesis
    using w m l1 l2 l3 l4 l5 l6 l7 limiter_other_client by simp
qed

text \<open>Requests at seconds 0, 1, 2, 3, 4 and 59 of a minute, then at second 60.\<close>

theorem C9_default_rate_limit_witness:
  "(Map.empty :: limiter_store) ''10.0.0.7'' = None
   \<and> (0 :: int) \<le> 1000 \<and> (1000 :: int) \<le> 2000 \<and> (2000 :: int) \<le> 3000 \<and> (3000 :: int) \<le> 4000
   \<and> (4000 :: int) \<le> 59999 \<and> (59999 :: int) < 0 + 60000 \<and> (0 :: int) + 60000 \<le> 60000
   \<and> api_requests (limiter_options_of no_env) Map.empty
        [(''10.0.0.7'', 0), (''10.0.0.7'', 1000), (''10.0.0.7'', 2000), (''10.0.0.7'', 3000),
         (''10.0.0.7'', 4000), (''10.0.0.7'', 59999), (''10.0.0.7'', 60000)]
      = [Next, Next, Next, Next, Next,
         Rejected 429 ''Too many requests from this IP, please try again later.'', Next]"
  using C9_default_rate_limit[of Map.empty "''10.0.0.7''" 0 1000 2000 3000 4000 59999 60000]
  by simp

section \<open>Upload\<close>

lemma default_fileSize_limit: "fileSize_limit no_env = Some 50000000"
  by (simp add: fileSize_limit_def no_env_def env_or_def parseInt_50000000)

text \<open>
  Claim C6. For every upload whose mime type is outside the allow-list, or whose size
  exceeds the configured ceiling (50000000 bytes when \<open>MAX_FILE_SIZE\<close> is not set), the
  request is answered 400 and no call to the remote transcription provider is made.
\<close>

theorem C6_upload_rejected_before_remote_call:
  assumes "mimetype file \<notin> set allowedMimeTypes
         \<or> (\<exists>n. fileSize_limit penv = Some n \<and> n < int (file_size file))"
  shows "(\<exists>msg. upload_route penv fal (Some file) form = (Failure 400 msg, []))
       \<and> allowedMimeTypes = [''audio/mpeg'', ''audio/wav'', ''audio/mp3'', ''audio/mp4'', ''audio/m4a'',
                              ''audio/webm'', ''audio/flac'']
       \<and> fileSize_limit no_env = Some 50000000"
proof -
  have "\<exists>msg. upload_route penv fal (Some file) form = (Failure 400 msg, [])"
  proof (cases "mimetype file \<in> set allowedMimeTypes")
    case False
    then show ?thesis
      by (simp add: upload_route_def upload_single_def fileFilter_def errorHandler_def)
  next
    case True
    then obtain n where "fileSize_limit penv = Some n" "n < int (file_size file)"
      using assms by blast
    then show ?thesis
      using True by (simp add: upload_route_def upload_single_def fileFilter_def errorHandler_def)
  qed
  then show ?thesis
    by (simp add: default_fileSize_limit allowedMimeTypes_def)
qed

text \<open>A text file, and an audio file of 60 MB under the default ceiling.\<close>

theorem C6_upload_rejected_before_remote_call_witness:
  "mimetype text_file \<notin> set allowedMimeTypes
   \<and> upload_route no_env fal_down (Some text_file) Map.empty
       = (Failure 400 ''Invalid file type. Only audio files are allowed.'', [])
   \<and> mimetype big_file \<in> set allowedMimeTypes
   \<and> fileSize_limit no_env = Some 50000000 \<and> 50000000 < int (file_size big_file)
   \<and> upload_route no_env fal_down (Some big_file) Map.empty = (Failure 400 ''File too large'', [])"
proof -
  have a: "mimetype text_file \<notin> set allowedMimeTypes"
    by (simp add: text_file_def allowedMimeTypes_def)
  have b: "mimetype big_file \<in> set allowedMimeTypes" "50000000 < int (file_size big_file)"
    by (simp_all add: big_file_def allowedMimeTypes_def)
  have lim: "fileSize_limit no_env = Some 50000000"
    using C6_upload_rejected_before_remote_call[of text_file no_env] a by blast
  obtain m1 where m1: "upload_route no_env fal_down (Some text_file) Map.empty = (Failure 400 m1, [])"
    using C6_upload_rejected_before_remote_call[of text_file no_env fal_down Map.empty] a by blast
  obtain m2 where m2: "upload_route no_env fal_down (Some big_file) Map.empty = (Failure 400 m2, [])"
    using C6_upload_rejected_before_remote_call[of big_file no_env fal_down Map.empty] b lim by blast
  have "m1 = ''Invalid file type. Only audio files are allowed.''"
    using m1 a by (simp add: upload_route_def upload_single_def fileFilter_def errorHandler_def)
  moreover have "m2 = ''File too large''"
    using m2 b lim by (simp add: upload_route_def upload_single_def fileFilter_def errorHandler_def)
  ultimately show ?thesis
    using a b lim m1 m2 by simp
qed

end
